theory Spec2Isabelle
  imports Main
begin

section \<open>Data model of ipcbuf.c\<close>

text \<open>
  The two anonymous enums of the source, the socket type and domain constants it uses,
  and the error numbers its control flow distinguishes. \<open>ENONE\<close> is the value of
  \<open>errno\<close> before any call has failed; \<open>EOTHER\<close> stands for every error number the
  source does not name.
\<close>

datatype mode = LOOP | CHUNK

datatype ipc_type = IPC_PIPE | IPC_FIFO | IPC_SOCKETPAIR | IPC_SOCKET

datatype sock_type = SOCK_DGRAM | SOCK_STREAM

datatype sock_domain = PF_LOCAL | PF_INET | PF_INET6

datatype errno = ENONE | EAGAIN | EMSGSIZE | ENOBUFS | ERANGE | EOTHER nat

text \<open>
  C \<open>int\<close> is 32 bits wide on every platform the program supports. Values are kept as
  \<open>int\<close> and every arithmetic operation of the source on an \<open>int\<close> variable is followed by
  \<open>wrap32\<close>, the two's complement wrap-around.
\<close>

definition wrap32 :: "int \<Rightarrow> int" where
  "wrap32 x = (x + 2147483648) mod 4294967296 - 2147483648"

definition INT_MAX :: int where
  "INT_MAX = 2147483647"

definition int32 :: "int \<Rightarrow> bool" where
  "int32 x = (- 2147483648 \<le> x \<and> x \<le> 2147483647)"

subsection \<open>The operating system\<close>

text \<open>
  Every library and system call the program makes is a constructor of \<open>syscall\<close>, with the
  arguments the source passes. The operating system is a parameter of the model: a
  transition function on a kernel state of any type \<open>'k\<close>. \<open>Ok v\<close> is a call that
  succeeded: \<open>v\<close> is its return value, or, for the calls that return 0 and deliver an
  integer through an out-parameter (\<open>ioctl\<close>, \<open>getsockopt\<close>, \<open>sysctlbyname\<close>), that
  integer. \<open>Ok2 a b\<close> is a call that returned 0 and stored two descriptors (\<open>pipe\<close>,
  \<open>socketpair\<close>). \<open>Fail e\<close> is a return value of \<open>-1\<close> (\<open>NULL\<close> for \<open>malloc\<close> and
  \<open>strdup\<close>) with \<open>errno\<close> set to \<open>e\<close>. \<open>Read_number fd n\<close> is the \<open>read\<close> of
  \<open>reportSysctl\<close>: its value is the number that the text read denotes (what \<open>strtol\<close>
  reads of it, before it saturates at \<open>LONG_MAX\<close>).
  A process sees one result of \<open>fork\<close>: 0 in the child, the child's id in the parent.
\<close>

datatype ioreq = FIONSPACE | FIONWRITE | SIOCOUTQ | FIONREAD | SIOCINQ

datatype sockopt = SO_SNDBUF | SO_SNDLOWAT | SO_RCVBUF

datatype oflags = O_RDONLY | O_RDONLY_NONBLOCK | O_WRONLY_NONBLOCK

datatype sockaddr = Sun_path string | Sin_addr string int | Sin6_addr string int | Sin6_any int

datatype syscall =
    Malloc int
  | Strdup string
  | Write int int
  | Read int int
  | Read_number int int
  | Fcntl_SETFL_NONBLOCK int
  | Fcntl_SETPIPE_SZ int int
  | Fcntl_GETPIPE_SZ int
  | Fpathconf_PIPE_BUF int
  | Ioctl int ioreq
  | Getsockopt int sockopt
  | Setsockopt int sockopt int
  | Sysctl_len string
  | Sysctl_value string
  | Close int
  | Unlink string
  | Pipe
  | Mkfifo string
  | Open string oflags
  | Socketpair sock_type
  | Socket sock_domain sock_type
  | Inet_pton sock_domain string
  | Bind int sockaddr
  | Listen int int
  | Accept int
  | Connect int sockaddr
  | Fflush
  | Fork
  | Waitpid int
  | Usleep int
  | Atexit

datatype sysret = Ok int | Ok2 int int | Fail errno

type_synonym 'k os = "'k \<Rightarrow> syscall \<Rightarrow> sysret \<times> 'k"

fun rv :: "sysret \<Rightarrow> int" where
  "rv (Ok v) = v"
| "rv (Ok2 a b) = 0"
| "rv (Fail e) = -1"

subsection \<open>The platform\<close>

text \<open>
  The preprocessor conditions of the source: which request codes and control calls the
  system headers define, which operating system the program is compiled for, the values
  of \<open>PIPE_BUF\<close> and \<open>PIPE_MAX\<close> where they are defined, of \<open>BUFSIZ\<close>, and of
  \<open>LONG_MAX\<close> (the bound at which \<open>strtol\<close> saturates).
\<close>

record platform =
  def_FIONSPACE :: bool
  def_FIONWRITE :: bool
  def_SIOCOUTQ :: bool
  def_FIONREAD :: bool
  def_SIOCINQ :: bool
  def_linux :: bool
  def_FreeBSD :: bool
  def_NetBSD :: bool
  def_sun :: bool
  def_F_SETPIPE_SZ :: bool
  def_F_GETPIPE_SZ :: bool
  def_PIPE_BUF :: "int option"
  def_PIPE_MAX :: "int option"
  BUFSIZ :: int
  LONG_MAX :: int

subsection \<open>Output\<close>

text \<open>
  One \<open>line\<close> per \<open>printf\<close>, \<open>fprintf\<close> or \<open>err\<close> call of the source, carrying the
  arguments of the call; the plural suffixes and paddings are functions of these
  arguments and are left out. \<open>Usage_text\<close> is the whole of \<open>usage()\<close>.
\<close>

datatype chan = Stdout | Stderr

datatype line =
    Labelled string int
  | Unable_single errno
  | Unable_more int errno
  | Wrote int int int
  | Err_line string errno
  | Usage_text
  | Sorry_pipe_size
  | Please_number int
  | Only_with_pipe
  | Only_with_socket
  | Inet_only_with_socket
  | Invalid_socket_type
  | Blank
  | Trying_to_write int
  | Trying_plus int int int
  | Trying_times int int
  | Trying_bytes int
  | Observed_total int
  | Quiet_total int
  | Draining
  | Testing
  | Test_name "string list"
  | Buffer_size_mode mode
  | Loop_starting int
  | Doubling
  | Increasing int
  | First_chunk int
  | Then_more int int
  | Sysctl_name string
  | Sysctl_number int
  | Sysctl_too_large string

subsection \<open>Program state\<close>

text \<open>
  The global variables of the source with their names, \<open>errno\<close>, and the world the
  process runs in: the kernel state, the calls made so far with their results (oldest
  first) and the lines printed so far (oldest first).
\<close>

record 'k pstate =
  IPC_TYPE :: ipc_type
  MODE :: mode
  CHUNK1 :: int
  CHUNK2 :: int
  TOTAL :: int
  NUM_CHUNKS :: int
  LARGEST_CHUNK :: int
  QUIET :: bool
  SET_RCVBUF :: int
  SET_SNDBUF :: int
  SET_PIPEBUF :: int
  SET_SOCKTYPE :: string
  SOCK_TYPE :: sock_type
  SET_SOCKDOMAIN :: string
  SOCK_DOMAIN :: sock_domain
  errno :: errno
  kern :: 'k
  trace :: "(syscall \<times> sysret) list"
  printed :: "(chan \<times> line) list"

text \<open>A function of the source either returns a value or ends the process with a status.\<close>

datatype ('a, 'k) result = Return 'a "'k pstate" | Exit int "'k pstate"

definition EXIT_FAILURE :: int where
  "EXIT_FAILURE = 1"

definition EXIT_SUCCESS :: int where
  "EXIT_SUCCESS = 0"

definition sysc :: "'k os \<Rightarrow> syscall \<Rightarrow> 'k pstate \<Rightarrow> sysret \<times> 'k pstate" where
  "sysc os c s =
     (let (r, k') = os (kern s) c;
          s' = s\<lparr>kern := k', trace := trace s @ [(c, r)]\<rparr>
      in case r of Fail e \<Rightarrow> (r, s'\<lparr>errno := e\<rparr>) | _ \<Rightarrow> (r, s'))"

definition print :: "line \<Rightarrow> 'k pstate \<Rightarrow> 'k pstate" where
  "print l s = s\<lparr>printed := printed s @ [(Stdout, l)]\<rparr>"

definition eprint :: "line \<Rightarrow> 'k pstate \<Rightarrow> 'k pstate" where
  "eprint l s = s\<lparr>printed := printed s @ [(Stderr, l)]\<rparr>"

text \<open>\<open>err(EXIT_FAILURE, what)\<close>: print \<open>what\<close> and the text of \<open>errno\<close>, then exit.\<close>

definition err :: "string \<Rightarrow> 'k pstate \<Rightarrow> ('a, 'k) result" where
  "err what s = Exit EXIT_FAILURE (eprint (Err_line what (errno s)) s)"

text \<open>The state in which a function ended, and the calls it made.\<close>

fun final :: "('a, 'k) result \<Rightarrow> 'k pstate" where
  "final (Return v s) = s"
| "final (Exit st s) = s"

definition calls_since :: "'k pstate \<Rightarrow> 'k pstate \<Rightarrow> (syscall \<times> sysret) list" where
  "calls_since s s' = drop (length (trace s)) (trace s')"

text \<open>
  The idiom \<open>if (call(...) < 0) err(EXIT_FAILURE, what);\<close> of the source; the value
  returned is that of the call.
\<close>

definition checked :: "'k os \<Rightarrow> syscall \<Rightarrow> string \<Rightarrow> 'k pstate \<Rightarrow> (int, 'k) result" where
  "checked os c what s =
     (let (r, s1) = sysc os c s
      in if rv r < 0 then err what s1 else Return (rv r) s1)"

text \<open>Sequencing: an exit ends the sequence, a loop that never ends leaves no result.\<close>

definition and_then ::
  "('a, 'k) result \<Rightarrow> ('a \<Rightarrow> 'k pstate \<Rightarrow> ('b, 'k) result option) \<Rightarrow> ('b, 'k) result option" where
  "and_then m f = (case m of Exit st s \<Rightarrow> Some (Exit st s) | Return v s \<Rightarrow> f v s)"

definition and_then_opt ::
  "('a, 'k) result option \<Rightarrow> ('a \<Rightarrow> 'k pstate \<Rightarrow> ('b, 'k) result option)
     \<Rightarrow> ('b, 'k) result option" where
  "and_then_opt m f = (case m of None \<Rightarrow> None | Some x \<Rightarrow> and_then x f)"

section \<open>printFdQueueSize and printSockOpt\<close>

text \<open>
  \<open>printFdQueueSize\<close> is called with the literals \<open>"space"\<close>, \<open>"write"\<close> and \<open>"read"\<close>
  only; \<open>which\<close> is that argument. \<open>select_req\<close> is the choice of the request code by
  the first two conditionals; \<open>None\<close> is their \<open>return -1\<close>.
\<close>

datatype which = Space | WriteQ | ReadQ

fun select_req :: "platform \<Rightarrow> which \<Rightarrow> ioreq option" where
  "select_req pf Space = (if def_FIONSPACE pf then Some FIONSPACE else None)"
| "select_req pf WriteQ =
     (if def_FIONWRITE pf then Some FIONWRITE
      else if def_SIOCOUTQ pf then Some SIOCOUTQ else None)"
| "select_req pf ReadQ =
     (if def_FIONREAD pf then Some FIONREAD
      else if def_SIOCINQ pf then Some SIOCINQ else None)"

fun req_name :: "ioreq \<Rightarrow> string" where
  "req_name FIONSPACE = ''FIONSPACE''"
| "req_name FIONWRITE = ''FIONWRITE''"
| "req_name SIOCOUTQ = ''SIOCOUTQ''"
| "req_name FIONREAD = ''FIONREAD''"
| "req_name SIOCINQ = ''SIOCINQ''"

definition printFdQueueSize ::
  "platform \<Rightarrow> 'k os \<Rightarrow> int \<Rightarrow> which \<Rightarrow> 'k pstate \<Rightarrow> (int, 'k) result" where
  "printFdQueueSize pf os fd which s =
     (case select_req pf which of
        None \<Rightarrow> Return (-1) s
      | Some req \<Rightarrow>
          if (def_FreeBSD pf \<or> def_linux pf)
             \<and> \<not> (IPC_TYPE s = IPC_SOCKET \<or> IPC_TYPE s = IPC_SOCKETPAIR)
          then Return (-1) s
          else
            let (r, s1) = sysc os (Ioctl fd req) s
            in case r of
                 Fail e \<Rightarrow> err ''ioctl'' s1
               | _ \<Rightarrow>
                   Return (rv r)
                     (if \<not> QUIET s1 then print (Labelled (req_name req) (rv r)) s1 else s1))"

fun sopt_name :: "sockopt \<Rightarrow> string" where
  "sopt_name SO_SNDBUF = ''SO_SNDBUF''"
| "sopt_name SO_SNDLOWAT = ''SO_SNDLOWAT''"
| "sopt_name SO_RCVBUF = ''SO_RCVBUF''"

definition printSockOpt :: "'k os \<Rightarrow> int \<Rightarrow> sockopt \<Rightarrow> 'k pstate \<Rightarrow> (unit, 'k) result" where
  "printSockOpt os fd opt s =
     (if QUIET s then Return () s
      else
        let (r, s1) = sysc os (Getsockopt fd opt) s
        in case r of
             Fail e \<Rightarrow> err ''getsockopt'' s1
           | _ \<Rightarrow> Return () (print (Labelled (sopt_name opt) (rv r)) s1))"

section \<open>The Capacity Probe Engine\<close>

subsection \<open>writeChunk\<close>

text \<open>
  The part of \<open>writeChunk\<close> from the label \<open>again\<close> on. \<open>wanted\<close> and \<open>failed\<close> are the
  local variables of the source; \<open>count\<close> is the parameter that the retry decrements.
\<close>

function writeChunk_again ::
  "'k os \<Rightarrow> int \<Rightarrow> int \<Rightarrow> bool \<Rightarrow> int \<Rightarrow> 'k pstate \<Rightarrow> (int, 'k) result" where
  "writeChunk_again os fd wanted failed count s =
     (let (r, s1) = sysc os (Write fd count) s;
          n = wrap32 (rv r)
      in if n < 0 then
           if errno s1 = EMSGSIZE \<or> errno s1 = ENOBUFS then
             let count' = wrap32 (count - 1)
             in if count' < 1 then Return (-1) (eprint (Unable_single (errno s1)) s1)
                else writeChunk_again os fd wanted True count' s1
           else if errno s1 = EAGAIN then
             let s2 = (if failed \<and> \<not> QUIET s1 then print (Labelled ''MSGSIZE'' count) s1 else s1)
             in Return (-1) (eprint (Unable_more count (errno s2)) s2)
           else err ''write'' s1
         else
           let s2 = s1\<lparr>TOTAL := wrap32 (TOTAL s1 + n)\<rparr>;
               s3 = (if \<not> QUIET s2 then print (Wrote n wanted (TOTAL s2)) s2 else s2);
               s4 = (if n > LARGEST_CHUNK s3 then s3\<lparr>LARGEST_CHUNK := n\<rparr> else s3)
           in Return n s4)"
  by pat_completeness auto
termination
proof (relation "measure (\<lambda>(os, fd, wanted, failed, count, s). if count < 1 then 2147483649 else nat count)")
  show "wf (measure (\<lambda>(os :: 'k os, fd :: int, wanted :: int, failed :: bool, count :: int, s :: 'k pstate).
          if count < 1 then 2147483649 else nat count))"
    by simp
next
  fix os :: "'k os" and fd wanted :: int and failed :: bool and count :: int and s s1 :: "'k pstate"
    and r n count'
  assume c: "count' = wrap32 (count - 1)" "\<not> count' < 1"
  have up: "count' \<le> 2147483647"
    unfolding c(1) wrap32_def
    using pos_mod_bound [of 4294967296 "count - 1 + 2147483648"] by linarith
  have "1 \<le> count \<Longrightarrow> count' \<le> count - 1"
    unfolding c(1) wrap32_def
    using zmod_le_nonneg_dividend [of "count - 1 + 2147483648" 4294967296] by linarith
  with c(2) up
  show "((os, fd, wanted, True, count', s1), (os, fd, wanted, failed, count, s))
        \<in> measure (\<lambda>(os, fd, wanted, failed, count, s). if count < 1 then 2147483649 else nat count)"
    by auto
qed

declare writeChunk_again.simps [simp del]

text \<open>
  \<open>writeChunk\<close>: \<open>malloc\<close> returns \<open>NULL\<close> exactly when the call fails. \<open>memset\<close> and
  \<open>free\<close> have no effect that the program can observe.
\<close>

definition writeChunk :: "'k os \<Rightarrow> int \<Rightarrow> int \<Rightarrow> 'k pstate \<Rightarrow> (int, 'k) result" where
  "writeChunk os fd count s =
     (let (r, s1) = sysc os (Malloc count) s
      in case r of
           Fail e \<Rightarrow> err ''malloc'' s1
         | _ \<Rightarrow> writeChunk_again os fd count False count s1)"

subsection \<open>writeLoop\<close>

text \<open>The size that follows \<open>count\<close>: the conditional at the end of the loop body.\<close>

definition grow :: "int \<Rightarrow> int \<Rightarrow> int" where
  "grow inc count = (if inc = -1 then wrap32 (count * 2) else wrap32 (count + inc))"

text \<open>
  The \<open>while (1)\<close> loop of \<open>writeLoop\<close>, with the loop variables \<open>count\<close> and \<open>i\<close>. The
  loop need not end, so the result is an option: \<open>None\<close> is a run that never leaves the
  loop. The value returned is the final \<open>i\<close>.
\<close>

partial_function (option) writeLoop_while ::
  "'k os \<Rightarrow> int \<Rightarrow> int \<Rightarrow> int \<Rightarrow> int \<Rightarrow> 'k pstate \<Rightarrow> (int, 'k) result option" where
  "writeLoop_while os fd inc count i s =
     (case writeChunk os fd count s of
        Exit st s1 \<Rightarrow> Some (Exit st s1)
      | Return n s1 \<Rightarrow>
          if n \<noteq> count \<or> n < 0 then Some (Return (if n > 0 then wrap32 (i + 1) else i) s1)
          else writeLoop_while os fd inc (grow inc count) (wrap32 (i + 1)) s1)"

definition writeLoop :: "'k os \<Rightarrow> int \<Rightarrow> int \<Rightarrow> int \<Rightarrow> 'k pstate \<Rightarrow> (unit, 'k) result option" where
  "writeLoop os fd count inc s =
     (case writeLoop_while os fd inc count 0 s of
        None \<Rightarrow> None
      | Some (Exit st s1) \<Rightarrow> Some (Exit st s1)
      | Some (Return i s1) \<Rightarrow>
          Some (Return () (if \<not> QUIET s1 then print (Labelled ''Iterations'' i) s1 else s1)))"

section \<open>setPipeSize\<close>

definition setPipeSize :: "platform \<Rightarrow> 'k os \<Rightarrow> int \<Rightarrow> 'k pstate \<Rightarrow> (unit, 'k) result" where
  "setPipeSize pf os fd s =
     (if SET_PIPEBUF s = -1 then Return () s
      else if \<not> def_F_SETPIPE_SZ pf then Exit EXIT_FAILURE (eprint Sorry_pipe_size s)
      else
        let (r, s1) = sysc os (Fcntl_SETPIPE_SZ fd (SET_PIPEBUF s)) s
        in if rv r < 0 then err ''fcntl(F_SETPIPE_SZ)'' s1 else Return () s1)"


section \<open>inputNumber and parseArgs\<close>

text \<open>
  \<open>strtol(in, NULL, 10)\<close> as the C standard defines it: white space is skipped, an
  optional sign and the longest run of decimal digits are read, a text without digits
  gives 0, and a value out of the range of \<open>long\<close> gives \<open>LONG_MAX\<close> or \<open>LONG_MIN\<close>
  with \<open>errno\<close> set to \<open>ERANGE\<close>.
\<close>

definition isspace :: "char \<Rightarrow> bool" where
  "isspace c = (c \<in> set [CHR '' '', CHR 0x09, CHR 0x0A, CHR 0x0B, CHR 0x0C, CHR 0x0D])"

definition digit_val :: "char \<Rightarrow> int option" where
  "digit_val = map_of (zip ''0123456789'' [0, 1, 2, 3, 4, 5, 6, 7, 8, 9])"

fun digits :: "int \<Rightarrow> string \<Rightarrow> int" where
  "digits acc [] = acc"
| "digits acc (c # cs) =
     (case digit_val c of Some d \<Rightarrow> digits (acc * 10 + d) cs | None \<Rightarrow> acc)"

definition strtol_value :: "string \<Rightarrow> int" where
  "strtol_value str =
     (case dropWhile isspace str of
        [] \<Rightarrow> 0
      | c # cs \<Rightarrow>
          if c = CHR ''-'' then - digits 0 cs
          else if c = CHR ''+'' then digits 0 cs
          else digits 0 (c # cs))"

definition strtol :: "platform \<Rightarrow> string \<Rightarrow> 'k pstate \<Rightarrow> int \<times> 'k pstate" where
  "strtol pf str s =
     (let v = strtol_value str
      in if LONG_MAX pf < v then (LONG_MAX pf, s\<lparr>errno := ERANGE\<rparr>)
         else if v < - LONG_MAX pf - 1 then (- LONG_MAX pf - 1, s\<lparr>errno := ERANGE\<rparr>)
         else (v, s))"

text \<open>\<open>inputNumber\<close>: the cast of the \<open>long\<close> to \<open>int\<close> keeps the low 32 bits.\<close>

definition inputNumber :: "platform \<Rightarrow> string \<Rightarrow> int \<Rightarrow> 'k pstate \<Rightarrow> (int, 'k) result" where
  "inputNumber pf inp threshold s =
     (let (l, s1) = strtol pf inp s;
          n = wrap32 l
      in if n < threshold then Exit EXIT_FAILURE (eprint (Please_number threshold) s1)
         else Return n s1)"

text \<open>
  \<open>strcasecmp(a, b) == 0\<close> and \<open>strncmp(a, b, strlen(b)) == 0\<close> on strings without
  \<open>NUL\<close>.
\<close>

definition tolower :: "char \<Rightarrow> char" where
  "tolower c =
     (case map_of (zip ''ABCDEFGHIJKLMNOPQRSTUVWXYZ'' ''abcdefghijklmnopqrstuvwxyz'') c of
        Some l \<Rightarrow> l
      | None \<Rightarrow> c)"

definition strcasecmp_eq :: "string \<Rightarrow> string \<Rightarrow> bool" where
  "strcasecmp_eq a b = (map tolower a = map tolower b)"

definition strncmp_eq :: "string \<Rightarrow> string \<Rightarrow> bool" where
  "strncmp_eq a b = (take (length b) a = b)"

text \<open>
  The \<open>getopt\<close> loop of \<open>parseArgs\<close>. \<open>getopt\<close> is a parameter: \<open>opts\<close> is the list of the
  option characters it returns with their \<open>optarg\<close>, \<open>?\<close> for an option it rejects. The
  values returned are the local variables \<open>sflag\<close> and \<open>type\<close>.
\<close>

fun parseArgs_getopt ::
  "platform \<Rightarrow> (char \<times> string) list \<Rightarrow> bool \<Rightarrow> string option \<Rightarrow> 'k pstate
     \<Rightarrow> (bool \<times> string option, 'k) result" where
  "parseArgs_getopt pf [] sflag type s = Return (sflag, type) s"
| "parseArgs_getopt pf ((ch, optarg) # rest) sflag type s =
     (if ch = CHR ''P'' then
        case inputNumber pf optarg 1 s of
          Exit st s1 \<Rightarrow> Exit st s1
        | Return n s1 \<Rightarrow> parseArgs_getopt pf rest sflag type (s1\<lparr>SET_PIPEBUF := n\<rparr>)
      else if ch = CHR ''R'' then
        case inputNumber pf optarg 1 s of
          Exit st s1 \<Rightarrow> Exit st s1
        | Return n s1 \<Rightarrow> parseArgs_getopt pf rest sflag type (s1\<lparr>SET_RCVBUF := n\<rparr>)
      else if ch = CHR ''S'' then
        case inputNumber pf optarg 1 s of
          Exit st s1 \<Rightarrow> Exit st s1
        | Return n s1 \<Rightarrow> parseArgs_getopt pf rest sflag type (s1\<lparr>SET_SNDBUF := n\<rparr>)
      else if ch = CHR ''c'' then parseArgs_getopt pf rest sflag type (s\<lparr>MODE := CHUNK\<rparr>)
      else if ch = CHR ''h'' then Exit EXIT_SUCCESS (print Usage_text s)
      else if ch = CHR ''l'' then parseArgs_getopt pf rest sflag type (s\<lparr>MODE := LOOP\<rparr>)
      else if ch = CHR ''n'' then
        case inputNumber pf optarg 0 s of
          Exit st s1 \<Rightarrow> Exit st s1
        | Return n s1 \<Rightarrow> parseArgs_getopt pf rest sflag type (s1\<lparr>NUM_CHUNKS := n\<rparr>)
      else if ch = CHR ''q'' then parseArgs_getopt pf rest sflag type (s\<lparr>QUIET := True\<rparr>)
      else if ch = CHR ''s'' then
        parseArgs_getopt pf rest True type (s\<lparr>SET_SOCKTYPE := optarg\<rparr>)
      else if ch = CHR ''t'' then parseArgs_getopt pf rest sflag (Some optarg) s
      else Exit EXIT_FAILURE (print Usage_text s))"

text \<open>\<open>parseArgs\<close> after the loop; \<open>args\<close> is \<open>argv\<close> from \<open>optind\<close> on.\<close>

definition parseArgs_type :: "string option \<Rightarrow> 'k pstate \<Rightarrow> 'k pstate" where
  "parseArgs_type type s =
     (case type of
        None \<Rightarrow> s
      | Some t \<Rightarrow>
          if strcasecmp_eq t ''fifo'' then s\<lparr>IPC_TYPE := IPC_FIFO\<rparr>
          else if strcasecmp_eq t ''pipe'' then s\<lparr>IPC_TYPE := IPC_PIPE\<rparr>
          else if strcasecmp_eq t ''socket'' then s\<lparr>IPC_TYPE := IPC_SOCKET\<rparr>
          else if strcasecmp_eq t ''socketpair'' then s\<lparr>IPC_TYPE := IPC_SOCKETPAIR\<rparr>
          else s)"

definition parseArgs_chunks :: "platform \<Rightarrow> string list \<Rightarrow> 'k pstate \<Rightarrow> (unit, 'k) result" where
  "parseArgs_chunks pf args s =
     (case (if length args > 0
            then case inputNumber pf (args ! 0) 0 s of
                   Exit st s1 \<Rightarrow> Exit st s1
                 | Return n s1 \<Rightarrow> Return () (s1\<lparr>CHUNK1 := n\<rparr>)
            else Return () s) of
        Exit st s1 \<Rightarrow> Exit st s1
      | Return u s1 \<Rightarrow>
          if length args > 1
          then case inputNumber pf (args ! 1) 0 s1 of
                 Exit st s2 \<Rightarrow> Exit st s2
               | Return n s2 \<Rightarrow> Return () (s2\<lparr>CHUNK2 := n\<rparr>)
          else Return () s1)"

definition parseArgs ::
  "platform \<Rightarrow> (char \<times> string) list \<Rightarrow> string list \<Rightarrow> 'k pstate \<Rightarrow> (unit, 'k) result" where
  "parseArgs pf opts args s =
     (case parseArgs_getopt pf opts False None s of
        Exit st s1 \<Rightarrow> Exit st s1
      | Return (sflag, type) s1 \<Rightarrow>
          if length args > 2 then Exit EXIT_FAILURE (print Usage_text s1)
          else
            let s2 = parseArgs_type type s1
            in if IPC_TYPE s2 \<noteq> IPC_PIPE \<and> SET_PIPEBUF s2 \<noteq> -1
               then Exit EXIT_FAILURE (eprint Only_with_pipe s2)
               else if sflag \<and> IPC_TYPE s2 \<noteq> IPC_SOCKET \<and> IPC_TYPE s2 \<noteq> IPC_SOCKETPAIR
               then Exit EXIT_FAILURE (eprint Only_with_socket s2)
               else if strncmp_eq (SET_SOCKTYPE s2) ''inet'' \<and> IPC_TYPE s2 \<noteq> IPC_SOCKET
               then Exit EXIT_FAILURE (eprint Inet_only_with_socket s2)
               else
                 let s3 = (if strncmp_eq (SET_SOCKTYPE s2) ''inet-''
                           then s2\<lparr>SET_SOCKDOMAIN := ''PF_INET'', SOCK_DOMAIN := PF_INET,
                                   SET_SOCKTYPE := drop 5 (SET_SOCKTYPE s2)\<rparr>
                           else if strncmp_eq (SET_SOCKTYPE s2) ''inet6-''
                           then s2\<lparr>SET_SOCKDOMAIN := ''PF_INET6'', SOCK_DOMAIN := PF_INET6,
                                   SET_SOCKTYPE := drop 6 (SET_SOCKTYPE s2)\<rparr>
                           else s2)
                 in if strcasecmp_eq (SET_SOCKTYPE s3) ''stream''
                    then parseArgs_chunks pf args (s3\<lparr>SOCK_TYPE := SOCK_STREAM\<rparr>)
                    else if \<not> strcasecmp_eq (SET_SOCKTYPE s3) ''dgram''
                    then Exit EXIT_FAILURE (eprint Invalid_socket_type s3)
                    else parseArgs_chunks pf args s3)"

section \<open>writeData\<close>

text \<open>
  The \<open>for\<close> loop of chunk mode. \<open>i + 1\<close> cannot overflow, since \<open>i < NUM_CHUNKS\<close>. The
  value that \<open>writeChunk\<close> returns is dropped, as in the source.
\<close>

function writeData_for :: "'k os \<Rightarrow> int \<Rightarrow> int \<Rightarrow> 'k pstate \<Rightarrow> (unit, 'k) result" where
  "writeData_for os fd i s =
     (if i < NUM_CHUNKS s then
        case writeChunk os fd (CHUNK2 s) s of
          Exit st s1 \<Rightarrow> Exit st s1
        | Return n s1 \<Rightarrow> writeData_for os fd (i + 1) s1
      else Return () s)"
  by pat_completeness auto
termination
proof (relation "measure (\<lambda>(os, fd, i, s). nat (NUM_CHUNKS s - i))")
  show "wf (measure (\<lambda>(os :: 'k os, fd :: int, i :: int, s :: 'k pstate). nat (NUM_CHUNKS s - i)))"
    by simp
next
  fix os :: "'k os" and fd i n :: int and s s1 :: "'k pstate"
  assume lt: "i < NUM_CHUNKS s" and w: "writeChunk os fd (CHUNK2 s) s = Return n s1"
  have again: "writeChunk_again os fd wanted failed count t = Return m t' \<Longrightarrow>
               NUM_CHUNKS t' = NUM_CHUNKS t"
    for wanted failed count m and t t' :: "'k pstate"
  proof (induction os fd wanted failed count t rule: writeChunk_again.induct)
    case (1 os fd wanted failed count t)
    obtain r t1 where c: "sysc os (Write fd count) t = (r, t1)"
      by (cases "sysc os (Write fd count) t")
    then have t1: "NUM_CHUNKS t1 = NUM_CHUNKS t"
      by (auto simp: sysc_def Let_def split: prod.splits sysret.splits)
    from "1.prems" "1.IH" [OF c [symmetric] refl] c t1 show ?case
      by (subst (asm) writeChunk_again.simps)
         (auto simp: Let_def err_def print_def eprint_def split: if_splits)
  qed
  obtain r t1 where c: "sysc os (Malloc (CHUNK2 s)) s = (r, t1)"
    by (cases "sysc os (Malloc (CHUNK2 s)) s")
  then have "NUM_CHUNKS t1 = NUM_CHUNKS s"
    by (auto simp: sysc_def Let_def split: prod.splits sysret.splits)
  with w c again have "NUM_CHUNKS s1 = NUM_CHUNKS s"
    by (auto simp: writeChunk_def err_def split: sysret.splits)
  with lt show "((os, fd, i + 1, s1), (os, fd, i, s)) \<in> measure (\<lambda>(os, fd, i, s). nat (NUM_CHUNKS s - i))"
    by simp
qed

declare writeData_for.simps [simp del]

text \<open>The \<open>else\<close> branch of \<open>writeData\<close>: chunk mode.\<close>

definition writeData_chunk :: "'k os \<Rightarrow> int \<Rightarrow> 'k pstate \<Rightarrow> (unit, 'k) result" where
  "writeData_chunk os fd s =
     (let i = (if CHUNK2 s < 1 then 1 else 0);
          s1 = (if CHUNK2 s < 1 then s\<lparr>CHUNK2 := CHUNK1 s\<rparr> else s);
          s2 = (if \<not> QUIET s1 then
                  let tot = CHUNK1 s1;
                      t1 = print (Trying_to_write (CHUNK1 s1)) s1
                  in if i = 0 then
                       let tot = wrap32 (CHUNK1 t1 + wrap32 (NUM_CHUNKS t1 * CHUNK2 t1))
                       in print (Trying_bytes tot)
                            (print (Trying_plus (NUM_CHUNKS t1) (CHUNK2 t1) tot) t1)
                     else if CHUNK1 t1 > 1 \<and> NUM_CHUNKS t1 > 1 then
                       let tot = wrap32 (CHUNK1 t1 * NUM_CHUNKS t1)
                       in print (Trying_bytes tot) (print (Trying_times (NUM_CHUNKS t1) tot) t1)
                     else print (Trying_bytes tot) t1
                else s1)
      in case writeChunk os fd (CHUNK1 s2) s2 of
           Exit st s3 \<Rightarrow> Exit st s3
         | Return n s3 \<Rightarrow> writeData_for os fd i s3)"

text \<open>What \<open>writeData\<close> does after the writes.\<close>

definition writeData_report :: "platform \<Rightarrow> 'k os \<Rightarrow> int \<Rightarrow> 'k pstate \<Rightarrow> (unit, 'k) result" where
  "writeData_report pf os fd s =
     (case printFdQueueSize pf os fd WriteQ s of
        Exit st s1 \<Rightarrow> Exit st s1
      | Return q s1 \<Rightarrow>
          let s2 = (if \<not> QUIET s1 then print (Observed_total (TOTAL s1)) s1
                    else print (Quiet_total (TOTAL s1)) s1)
          in if IPC_TYPE s2 = IPC_PIPE \<or> IPC_TYPE s2 = IPC_FIFO
             then Return () (snd (sysc os (Close fd) s2))
             else Return () s2)"

definition writeData :: "platform \<Rightarrow> 'k os \<Rightarrow> int \<Rightarrow> 'k pstate \<Rightarrow> (unit, 'k) result option" where
  "writeData pf os fd s =
     (let (r, s1) = sysc os (Fcntl_SETFL_NONBLOCK fd) s
      in if rv r < 0 then Some (err ''fcntl set flags'' s1)
         else
           case printFdQueueSize pf os fd Space s1 of
             Exit st s2 \<Rightarrow> Some (Exit st s2)
           | Return q s2 \<Rightarrow>
               let s3 = (if \<not> QUIET s2 then print Blank s2 else s2)
               in case (if MODE s3 = LOOP then writeLoop os fd (CHUNK1 s3) (CHUNK2 s3) s3
                        else Some (writeData_chunk os fd s3)) of
                    None \<Rightarrow> None
                  | Some (Exit st s4) \<Rightarrow> Some (Exit st s4)
                  | Some (Return u s4) \<Rightarrow> Some (writeData_report pf os fd s4))"

section \<open>The Drain Engine\<close>

text \<open>
  The \<open>while (1)\<close> loop of \<open>readData\<close>, with the local variable \<open>total\<close>; it returns the
  final \<open>total\<close>, and \<open>None\<close> when the loop never ends.
\<close>

partial_function (option) readData_while ::
  "platform \<Rightarrow> 'k os \<Rightarrow> int \<Rightarrow> int \<Rightarrow> int \<Rightarrow> 'k pstate \<Rightarrow> (int, 'k) result option" where
  "readData_while pf os fd bufsiz tot s =
     (case printFdQueueSize pf os fd ReadQ s of
        Exit st s1 \<Rightarrow> Some (Exit st s1)
      | Return left s1 \<Rightarrow>
          if left = 0 then Some (Return tot s1)
          else
            let (r, s2) = sysc os (Read fd bufsiz) s1;
                nr = wrap32 (rv r)
            in if nr < 0 then
                 if errno s2 = EAGAIN then Some (Return tot s2) else Some (err ''read'' s2)
               else
                 let tot' = wrap32 (tot + nr)
                 in if nr = 0 then Some (Return tot' s2)
                    else readData_while pf os fd bufsiz tot' s2)"

definition readData :: "platform \<Rightarrow> 'k os \<Rightarrow> int \<Rightarrow> 'k pstate \<Rightarrow> (unit, 'k) result option" where
  "readData pf os fd s =
     (let s1 = (if \<not> QUIET s then print Draining s else s);
          bufsiz = (if LARGEST_CHUNK s1 > BUFSIZ pf then LARGEST_CHUNK s1 else BUFSIZ pf);
          (m, s2) = sysc os (Malloc bufsiz) s1
      in case m of
           Fail e \<Rightarrow> Some (err ''malloc'' s2)
         | _ \<Rightarrow>
             let (r, s3) = sysc os (Fcntl_SETFL_NONBLOCK fd) s2
             in if rv r < 0 then Some (err ''fcntl set flags'' s3)
                else
                  case readData_while pf os fd bufsiz 0 s3 of
                    None \<Rightarrow> None
                  | Some (Exit st s4) \<Rightarrow> Some (Exit st s4)
                  | Some (Return tot s4) \<Rightarrow>
                      Some (Return () (if \<not> QUIET s4 then print (Labelled ''Read'' tot) s4 else s4)))"

section \<open>reportTest and the channels\<close>

text \<open>\<open>reportTest\<close>; \<open>name\<close> is the text that its format and arguments give.\<close>

definition reportTest :: "string list \<Rightarrow> 'k pstate \<Rightarrow> 'k pstate" where
  "reportTest name s =
     (if QUIET s then s
      else
        let s1 = print (Buffer_size_mode (MODE s)) (print (Test_name name) (print Testing s));
            s2 = (if MODE s1 = LOOP then
                    let t = print (Loop_starting (CHUNK1 s1)) s1
                    in if CHUNK2 t = -1 then print Doubling t else print (Increasing (CHUNK2 t)) t
                  else
                    print (Then_more (NUM_CHUNKS s1) (if CHUNK2 s1 < 0 then CHUNK1 s1 else CHUNK2 s1))
                      (print (First_chunk (CHUNK1 s1)) s1))
        in print Blank s2)"

definition print_unless_quiet :: "line \<Rightarrow> 'k pstate \<Rightarrow> 'k pstate" where
  "print_unless_quiet l s = (if \<not> QUIET s then print l s else s)"

definition doPipe :: "platform \<Rightarrow> 'k os \<Rightarrow> 'k pstate \<Rightarrow> (unit, 'k) result option" where
  "doPipe pf os s =
     (let (r, s1) = sysc os Pipe s
      in case r of
           Ok2 fd0 fd1 \<Rightarrow>
             and_then (setPipeSize pf os fd1 s1) (\<lambda>u s2.
               let s3 = reportTest [''pipe''] s2;
                   s4 = (case def_PIPE_BUF pf of
                           Some v \<Rightarrow> print_unless_quiet (Labelled ''PIPE_BUF'' v) s3
                         | None \<Rightarrow> s3);
                   s5 = (case def_PIPE_MAX pf of
                           Some v \<Rightarrow> print_unless_quiet (Labelled ''PIPE_MAX'' v) s4
                         | None \<Rightarrow> s4)
               in and_then
                    (if def_F_GETPIPE_SZ pf then
                       case checked os (Fcntl_GETPIPE_SZ fd1) ''fcntl(F_GETPIPE_SZ)'' s5 of
                         Exit st t \<Rightarrow> Exit st t
                       | Return v t \<Rightarrow> Return () (print_unless_quiet (Labelled ''F_GETPIPE_SZ'' v) t)
                     else Return () s5)
                    (\<lambda>u s6.
                       and_then (checked os (Fpathconf_PIPE_BUF fd1) ''fpathconf'' s6) (\<lambda>l s7.
                         and_then_opt
                           (writeData pf os fd1 (print_unless_quiet (Labelled ''_PC_PIPE_BUF'' l) s7))
                           (\<lambda>u s8. readData pf os fd0 s8))))
         | _ \<Rightarrow> Some (err ''pipe'' s1))"

text \<open>
  \<open>reportSysctl\<close>. \<open>sysctl_sname\<close> is the part of the name after its last dot, the
  whole name when there is no dot or nothing follows it.
\<close>

definition sysctl_sname :: "string \<Rightarrow> string" where
  "sysctl_sname str =
     (let after = rev (takeWhile (\<lambda>c. c \<noteq> CHR ''.'') (rev str))
      in if CHR ''.'' \<notin> set str \<or> length after < 1 then str else after)"

definition proc_path :: "string \<Rightarrow> string" where
  "proc_path str = ''/proc/sys/'' @ map (\<lambda>c. if c = CHR ''.'' then CHR ''/'' else c) str"

definition reportSysctl :: "platform \<Rightarrow> 'k os \<Rightarrow> string \<Rightarrow> 'k pstate \<Rightarrow> (unit, 'k) result" where
  "reportSysctl pf os str s =
     (if def_sun pf then Return () s
      else if QUIET s \<or> str = ''invalid'' then Return () s
      else
        let (d, s1) = sysc os (Strdup str) s
        in case d of
             Fail e \<Rightarrow> err ''strdup'' s1
           | _ \<Rightarrow>
               let s2 = print (Sysctl_name (sysctl_sname str)) s1
               in if def_linux pf then
                    case checked os (Open (proc_path str) O_RDONLY) ''open'' s2 of
                      Exit st s3 \<Rightarrow> Exit st s3
                    | Return fd s3 \<Rightarrow>
                        let (r, s4) = sysc os (Read_number fd (BUFSIZ pf)) s3
                        in case r of
                             Fail e \<Rightarrow> err ''read'' s4
                           | _ \<Rightarrow>
                               let s5 = snd (sysc os (Close fd) s4);
                                   (l, s6) =
                                     (if LONG_MAX pf < rv r
                                      then (LONG_MAX pf, s5\<lparr>errno := ERANGE\<rparr>)
                                      else if rv r < - LONG_MAX pf - 1
                                      then (- LONG_MAX pf - 1, s5\<lparr>errno := ERANGE\<rparr>)
                                      else (rv r, s5));
                                   n = wrap32 l
                               in if n < 1 then err ''strtol'' s6
                                  else Return () (print (Sysctl_number n) s6)
                  else
                    case checked os (Sysctl_len str) ''sysctl'' s2 of
                      Exit st s3 \<Rightarrow> Exit st s3
                    | Return len s3 \<Rightarrow>
                        if len > BUFSIZ pf
                        then Exit EXIT_FAILURE (eprint (Sysctl_too_large str) s3)
                        else
                          case checked os (Sysctl_value str) ''sysctl'' s3 of
                            Exit st s4 \<Rightarrow> Exit st s4
                          | Return v s4 \<Rightarrow> Return () (print (Sysctl_number v) s4))"

definition setBufferSizes ::
  "platform \<Rightarrow> 'k os \<Rightarrow> int \<Rightarrow> int \<Rightarrow> 'k pstate \<Rightarrow> (unit, 'k) result" where
  "setBufferSizes pf os rfd wfd s =
     (case (if rfd > 0 \<and> SET_RCVBUF s \<ge> 0 then
              let (r, s1) = sysc os (Setsockopt rfd SO_RCVBUF (SET_RCVBUF s)) s
              in if rv r < 0 \<and> \<not> def_sun pf then err ''setsockopt'' s1 else Return () s1
            else Return () s) of
        Exit st s1 \<Rightarrow> Exit st s1
      | Return u s1 \<Rightarrow>
          if wfd > 0 \<and> SET_SNDBUF s1 \<ge> 0 then
            let (r, s2) = sysc os (Setsockopt wfd SO_SNDBUF (SET_SNDBUF s1)) s1
            in if rv r < 0 then err ''setsockopt'' s2 else Return () s2
          else Return () s1)"

definition doSocketpair :: "platform \<Rightarrow> 'k os \<Rightarrow> 'k pstate \<Rightarrow> (unit, 'k) result option" where
  "doSocketpair pf os s =
     (let s0 = reportTest [''socketpair'', SET_SOCKTYPE s] s;
          (r, s1) = sysc os (Socketpair (SOCK_TYPE s0)) s0
      in case r of
           Ok2 fd0 fd1 \<Rightarrow>
             and_then (setBufferSizes pf os fd0 fd1 s1) (\<lambda>u s2.
               and_then
                 (reportSysctl pf os
                    (if def_linux pf then ''net.unix.max_dgram_qlen''
                     else ''net.local.dgram.recvspace'') s2)
                 (\<lambda>u s3.
                    and_then (printSockOpt os fd0 SO_RCVBUF s3) (\<lambda>u s4.
                      and_then (printSockOpt os fd1 SO_SNDBUF s4) (\<lambda>u s5.
                        and_then_opt (writeData pf os fd1 s5) (\<lambda>u s6. readData pf os fd0 s6)))))
         | _ \<Rightarrow> Some (err ''pipe'' s1))"

definition cleanup :: "'k os \<Rightarrow> 'k pstate \<Rightarrow> 'k pstate" where
  "cleanup os s = snd (sysc os (Unlink ''fifo'') (snd (sysc os (Unlink ''socket'') s)))"

definition doFifo :: "platform \<Rightarrow> 'k os \<Rightarrow> 'k pstate \<Rightarrow> (unit, 'k) result option" where
  "doFifo pf os s =
     and_then (checked os (Mkfifo ''fifo'') ''fifo'' (reportTest [''fifo''] s)) (\<lambda>u s1.
       and_then (checked os (Open ''fifo'' O_RDONLY_NONBLOCK) ''open'' s1) (\<lambda>rfd s2.
         and_then (checked os (Open ''fifo'' O_WRONLY_NONBLOCK) ''open'' s2) (\<lambda>wfd s3.
           and_then_opt (writeData pf os wfd s3) (\<lambda>u s4. readData pf os rfd s4))))"


text \<open>
  \<open>doSocket\<close>, in three parts: the choice of the address and of the name of the system
  tunable (with the call of \<open>inet_pton\<close>), the part from \<open>connect\<close> on, and the whole.
\<close>

definition doSocket_address ::
  "platform \<Rightarrow> 'k os \<Rightarrow> 'k pstate \<Rightarrow> (sockaddr \<times> string, 'k) result" where
  "doSocket_address pf os s =
     (case SOCK_DOMAIN s of
        PF_LOCAL \<Rightarrow>
          Return (Sun_path ''socket'',
                  if SOCK_TYPE s = SOCK_DGRAM then
                    (if def_linux pf then ''net.unix.max_dgram_qlen''
                     else ''net.local.dgram.recvspace'')
                  else if def_linux pf then ''invalid'' else ''net.local.stream.recvspace'') s
      | PF_INET \<Rightarrow>
          let (r, s1) = sysc os (Inet_pton PF_INET ''127.0.0.1'') s
          in if rv r \<noteq> 1 then err ''inet_pton'' s1
             else Return (Sin_addr ''127.0.0.1'' 12345,
                          if def_linux pf then ''invalid''
                          else if SOCK_TYPE s1 = SOCK_DGRAM then ''net.inet.udp.recvspace''
                          else ''net.inet.tcp.recvspace'') s1
      | PF_INET6 \<Rightarrow>
          let sysctl = (if def_NetBSD pf then
                          (if SOCK_TYPE s = SOCK_DGRAM then ''net.inet6.udp6.recvspace''
                           else ''net.inet6.tcp6.recvspace'')
                        else ''invalid'')
          in if def_FreeBSD pf then Return (Sin6_any 12345, sysctl) s
             else
               let (r, s1) = sysc os (Inet_pton PF_INET6 ''::1'') s
               in if rv r \<noteq> 1 then err ''inet_pton'' s1
                  else Return (Sin6_addr ''::1'' 12345, sysctl) s1)"

definition doSocket_connect ::
  "platform \<Rightarrow> 'k os \<Rightarrow> sockaddr \<Rightarrow> int \<Rightarrow> int \<Rightarrow> 'k pstate \<Rightarrow> (unit, 'k) result option" where
  "doSocket_connect pf os addr rfd wfd s =
     and_then (checked os (Connect wfd addr) ''connect'' s) (\<lambda>c s1.
       and_then (setBufferSizes pf os rfd wfd s1) (\<lambda>u s2.
         and_then (printSockOpt os wfd SO_SNDBUF s2) (\<lambda>u s3.
           and_then (printSockOpt os rfd SO_RCVBUF s3) (\<lambda>u s4.
             and_then_opt (writeData pf os wfd s4) (\<lambda>u s5.
               if SOCK_TYPE s5 = SOCK_DGRAM then
                 and_then_opt (readData pf os rfd s5) (\<lambda>u s6.
                   Some (Return () (snd (sysc os (Unlink ''socket'') s6))))
               else Some (Return () s5))))))"

definition doSocket :: "platform \<Rightarrow> 'k os \<Rightarrow> 'k pstate \<Rightarrow> (unit, 'k) result option" where
  "doSocket pf os s =
     and_then
       (checked os (Socket (SOCK_DOMAIN s) (SOCK_TYPE s)) ''socket''
          (reportTest [SET_SOCKDOMAIN s, SET_SOCKTYPE s, ''socket''] s))
       (\<lambda>wfd s1.
          and_then (doSocket_address pf os s1) (\<lambda>(addr, sysctl) s2.
            let (b, s3) = sysc os (Bind wfd addr) s2
            in if rv b \<noteq> 0 then Some (err ''bind'' s3)
               else
                 and_then (reportSysctl pf os sysctl s3) (\<lambda>u s4.
                   if SOCK_TYPE s4 = SOCK_STREAM then
                     let (f, s5) = sysc os Fflush s4
                     in if rv f = -1 then Some (err ''fflush'' s5)
                        else
                          and_then (checked os Fork ''fork'' s5) (\<lambda>pid s6.
                            if pid \<noteq> 0 then
                              and_then (checked os (Listen wfd 1) ''listen'' s6) (\<lambda>l s7.
                                and_then (checked os (Accept wfd) ''accept'' s7) (\<lambda>rfd s8.
                                  and_then (setBufferSizes pf os rfd (-1) s8) (\<lambda>u s9.
                                    and_then (checked os (Waitpid pid) ''waitpid'' s9) (\<lambda>w s10.
                                      and_then_opt (readData pf os rfd s10) (\<lambda>u s11.
                                        Some (Exit EXIT_SUCCESS s11))))))
                            else
                              and_then
                                (checked os (Socket (SOCK_DOMAIN s6) (SOCK_TYPE s6)) ''socket''
                                   (snd (sysc os (Usleep 500) s6)))
                                (\<lambda>wfd' s7. doSocket_connect pf os addr wfd wfd' s7))
                   else doSocket_connect pf os addr wfd wfd s4)))"

section \<open>main\<close>

text \<open>
  \<open>main\<close> gives the exit status of the process and its last state. Once \<open>atexit\<close> has
  registered \<open>cleanup\<close>, every exit runs it; falling off the end of \<open>main\<close> is an exit
  with status 0.
\<close>

definition main ::
  "platform \<Rightarrow> 'k os \<Rightarrow> (char \<times> string) list \<Rightarrow> string list \<Rightarrow> 'k pstate
     \<Rightarrow> (int \<times> 'k pstate) option" where
  "main pf os opts args s =
     (case parseArgs pf opts args s of
        Exit st s1 \<Rightarrow> Some (st, s1)
      | Return u s1 \<Rightarrow>
          let (r, s2) = sysc os Atexit s1
          in if rv r < 0 then Some (EXIT_FAILURE, final (err ''atexit'' s2 :: (unit, 'k) result))
             else
               case (case IPC_TYPE s2 of
                       IPC_FIFO \<Rightarrow> doFifo pf os s2
                     | IPC_PIPE \<Rightarrow> doPipe pf os s2
                     | IPC_SOCKET \<Rightarrow> doSocket pf os s2
                     | IPC_SOCKETPAIR \<Rightarrow> doSocketpair pf os s2) of
                 None \<Rightarrow> None
               | Some (Exit st s3) \<Rightarrow> Some (st, cleanup os s3)
               | Some (Return u s3) \<Rightarrow> Some (0, cleanup os s3))"

section \<open>Observations on a run\<close>

text \<open>
  \<open>after_accepted os fd inc N count s\<close> is the state of the loop of \<open>writeLoop\<close> after
  its first \<open>N\<close> chunks, when each of them was written in full (the loop went on after
  each); it is \<open>None\<close> when the loop ends earlier.
\<close>

fun after_accepted ::
  "'k os \<Rightarrow> int \<Rightarrow> int \<Rightarrow> nat \<Rightarrow> int \<Rightarrow> 'k pstate \<Rightarrow> 'k pstate option" where
  "after_accepted os fd inc 0 count s = Some s"
| "after_accepted os fd inc (Suc N) count s =
     (case writeChunk os fd count s of
        Exit st s1 \<Rightarrow> None
      | Return n s1 \<Rightarrow>
          if n \<noteq> count \<or> n < 0 then None
          else after_accepted os fd inc N (grow inc count) s1)"

text \<open>The loop variable \<open>i\<close> of \<open>writeLoop\<close> after \<open>N\<close> more increments.\<close>

definition counter :: "nat \<Rightarrow> int \<Rightarrow> int" where
  "counter N i = ((\<lambda>i. wrap32 (i + 1)) ^^ N) i"




fun stdout_lines :: "(chan \<times> line) list \<Rightarrow> line list" where
  "stdout_lines [] = []"
| "stdout_lines ((Stdout, l) # ls) = l # stdout_lines ls"
| "stdout_lines ((Stderr, l) # ls) = stdout_lines ls"

section \<open>Initial state and concrete operating systems\<close>

text \<open>
  Two platforms: Linux with glibc on a 64-bit machine, and NetBSD on a 64-bit machine. On
  Linux the source defines \<open>_GNU_SOURCE\<close> after it has included the first system headers,
  which is too late for glibc: \<open>fcntl.h\<close> then leaves \<open>F_SETPIPE_SZ\<close> and \<open>F_GETPIPE_SZ\<close>
  undefined.
\<close>

definition linux_pf :: platform where
  "linux_pf =
     \<lparr>def_FIONSPACE = False, def_FIONWRITE = False, def_SIOCOUTQ = True, def_FIONREAD = True,
      def_SIOCINQ = True, def_linux = True, def_FreeBSD = False, def_NetBSD = False,
      def_sun = False, def_F_SETPIPE_SZ = False, def_F_GETPIPE_SZ = False,
      def_PIPE_BUF = Some 4096, def_PIPE_MAX = None, BUFSIZ = 8192,
      LONG_MAX = 9223372036854775807\<rparr>"

definition netbsd_pf :: platform where
  "netbsd_pf =
     \<lparr>def_FIONSPACE = True, def_FIONWRITE = True, def_SIOCOUTQ = False, def_FIONREAD = True,
      def_SIOCINQ = False, def_linux = False, def_FreeBSD = False, def_NetBSD = True,
      def_sun = False, def_F_SETPIPE_SZ = False, def_F_GETPIPE_SZ = False,
      def_PIPE_BUF = Some 512, def_PIPE_MAX = None, BUFSIZ = 1024,
      LONG_MAX = 9223372036854775807\<rparr>"

text \<open>The global variables as the source initialises them, in a world with kernel state \<open>k\<close>.\<close>

definition init_state :: "'k \<Rightarrow> 'k pstate" where
  "init_state k =
     \<lparr>IPC_TYPE = IPC_PIPE, MODE = LOOP, CHUNK1 = 1, CHUNK2 = -1, TOTAL = 0, NUM_CHUNKS = 1,
      LARGEST_CHUNK = 0, QUIET = False, SET_RCVBUF = -1, SET_SNDBUF = -1, SET_PIPEBUF = -1,
      SET_SOCKTYPE = ''DGRAM'', SOCK_TYPE = SOCK_DGRAM, SET_SOCKDOMAIN = ''PF_LOCAL'',
      SOCK_DOMAIN = PF_LOCAL, errno = ENONE, kern = k, trace = [], printed = []\<rparr>"

text \<open>
  A byte queue of capacity \<open>cap\<close>, as a pipe is: the kernel state is the number of bytes
  queued. A write of no bytes succeeds; a write to a full queue would block; otherwise
  the write takes as many bytes as fit. Every other call succeeds.
\<close>

fun pipe_os :: "int \<Rightarrow> int os" where
  "pipe_os cap used (Write fd c) =
     (if c = 0 then (Ok 0, used)
      else if cap \<le> used then (Fail EAGAIN, used)
      else (Ok (min c (cap - used)), used + min c (cap - used)))"
| "pipe_os cap used (Read fd c) =
     (if used = 0 then (Fail EAGAIN, used)
      else (Ok (min c used), used - min c used))"
| "pipe_os cap used (Ioctl fd req) = (Ok used, used)"
| "pipe_os cap used (Malloc c) = (Ok 1, used)"
| "pipe_os cap used Pipe = (Ok2 3 4, used)"
| "pipe_os cap used (Fpathconf_PIPE_BUF fd) = (Ok 4096, used)"
| "pipe_os cap used (Fcntl_GETPIPE_SZ fd) = (Ok cap, used)"
| "pipe_os cap used c = (Ok 0, used)"


text \<open>
  A scripted system: the kernel state is the list of the results still to come, and
  every call takes the next one.
\<close>

fun script_os :: "sysret list os" where
  "script_os [] c = (Fail (EOTHER 0), [])"
| "script_os (r # rs) c = (r, rs)"


text \<open>The state at the end of the loop of \<open>writeLoop\<close> on a pipe with room for 12 bytes.\<close>

definition loop12_end :: "int pstate" where
  "loop12_end =
     (init_state 12)\<lparr>TOTAL := 12, LARGEST_CHUNK := 5,
         trace := [(Malloc 1, Ok 1), (Write 4 1, Ok 1), (Malloc 2, Ok 1), (Write 4 2, Ok 2),
                   (Malloc 4, Ok 1), (Write 4 4, Ok 4), (Malloc 8, Ok 1), (Write 4 8, Ok 5)],
         printed := [(Stdout, Wrote 1 1 1), (Stdout, Wrote 2 2 3), (Stdout, Wrote 4 4 7),
                     (Stdout, Wrote 5 8 12)]\<rparr>"










text \<open>Between two states no call to the operating system was made.\<close>

definition no_call :: "'k pstate \<Rightarrow> 'k pstate \<Rightarrow> bool" where
  "no_call s s' = (trace s' = trace s \<and> kern s' = kern s)"

text \<open>
  A result of the argument parser that is reached without a call to the operating
  system and that, when it is an exit, has the status \<open>EXIT_FAILURE\<close>, or the status
  \<open>EXIT_SUCCESS\<close> after the option \<open>-h\<close>.
\<close>

definition parsed_without_call ::
  "'k pstate \<Rightarrow> (char \<times> string) list \<Rightarrow> ('a, 'k) result \<Rightarrow> bool" where
  "parsed_without_call s opts r =
     (no_call s (final r)
      \<and> (case r of
            Exit st s' \<Rightarrow> st = EXIT_FAILURE \<or> (st = EXIT_SUCCESS \<and> CHR ''h'' \<in> fst ` set opts)
          | Return v s' \<Rightarrow> True))"

text \<open>
  The calls of a drain run. \<open>reads_into fd bufsiz e\<close>: the call \<open>e\<close> is a \<open>read\<close> on \<open>fd\<close>
  into a buffer of \<open>bufsiz\<close> bytes, or it is not a \<open>read\<close>. \<open>bytes_read tr\<close> is the sum of
  what the calls of \<open>read\<close> in \<open>tr\<close> returned (as an \<open>int\<close>), the failed ones left out.
\<close>

definition reads_into :: "int \<Rightarrow> int \<Rightarrow> syscall \<times> sysret \<Rightarrow> bool" where
  "reads_into fd bufsiz e = (case fst e of Read fd' c \<Rightarrow> fd' = fd \<and> c = bufsiz | _ \<Rightarrow> True)"

definition read_count :: "syscall \<times> sysret \<Rightarrow> int" where
  "read_count e =
     (case fst e of
        Read fd c \<Rightarrow> if 0 \<le> wrap32 (rv (snd e)) then wrap32 (rv (snd e)) else 0
      | _ \<Rightarrow> 0)"

definition bytes_read :: "(syscall \<times> sysret) list \<Rightarrow> int" where
  "bytes_read tr = sum_list (map read_count tr)"

definition is_read :: "syscall \<times> sysret \<Rightarrow> bool" where
  "is_read e = (case fst e of Read fd c \<Rightarrow> True | _ \<Rightarrow> False)"

text \<open>
  The run \<open>ipcbuf -t socket -s stream 10000\<close> as each of its two processes sees it:
  the replies of the operating system to the calls of the process that \<open>fork\<close> gives 0
  (it connects and writes), and to the calls of the process that \<open>fork\<close> gives the
  other's id (it accepts, waits and drains). The first write of 10000 bytes is
  accepted, the next would block; the reader then finds the 10000 bytes.
\<close>

definition stream_writer :: "sysret list" where
  "stream_writer =
     [Ok 0, Ok 3, Ok 0, Ok 0, Ok 0, Ok 0, Ok 4, Ok 0, Ok 212992, Ok 212992, Ok 0,
      Ok 1, Ok 10000, Ok 1, Fail EAGAIN, Ok 10000, Ok 0, Ok 0]"

definition stream_reader :: "sysret list" where
  "stream_reader =
     [Ok 0, Ok 3, Ok 0, Ok 0, Ok 1234, Ok 0, Ok 4, Ok 1234, Ok 1, Ok 0,
      Ok 10000, Ok 8192, Ok 1808, Ok 1808, Ok 0, Ok 0, Ok 0]"

text \<open>
  Growing by 3 from 4 into a pipe with room for 12 bytes: the state after the two
  accepted writes (4 and 7 bytes), and the state after the third write, which takes 1
  byte of 10.
\<close>

definition grow3_mid :: "int pstate" where
  "grow3_mid =
     (init_state 11)\<lparr>TOTAL := 11, LARGEST_CHUNK := 7,
         trace := [(Malloc 4, Ok 1), (Write 4 4, Ok 4), (Malloc 7, Ok 1), (Write 4 7, Ok 7)],
         printed := [(Stdout, Wrote 4 4 4), (Stdout, Wrote 7 7 11)]\<rparr>"

definition grow3_end :: "int pstate" where
  "grow3_end =
     grow3_mid\<lparr>TOTAL := 12, kern := 12,
         trace := trace grow3_mid @ [(Malloc 10, Ok 1), (Write 4 10, Ok 1)],
         printed := printed grow3_mid @ [(Stdout, Wrote 1 10 12)]\<rparr>"

text \<open>
  The configuration errors, stated on the command line alone (the options that \<open>getopt\<close>
  delivers and the positional arguments), for comparison with what \<open>parseArgs\<close> does.
  \<open>converted\<close> is the value of a numeric argument: what \<open>strtol\<close> returns for it, cut to
  an \<open>int\<close>. An option is rejected when it is none of those of the option string, or
  when its number is below the threshold. When an option is given more than once, its
  last argument counts. \<open>configuration_error\<close> lists the errors: a rejected option,
  more than two positional arguments, a pipe size for another variant than the pipe, a
  socket type for another variant than socket and socketpair, an \<open>inet\<close> socket type
  for another variant than socket, a socket type that is neither \<open>stream\<close> nor \<open>dgram\<close>
  (after an \<open>inet-\<close> or \<open>inet6-\<close> prefix), and a negative chunk size.
  \<open>ends_options\<close>: the option ends the loop over the options, as the help option or as
  a rejected one. \<open>help_first\<close>: the first option that ends the loop is the help option.
\<close>

definition converted :: "platform \<Rightarrow> string \<Rightarrow> int" where
  "converted pf inp =
     wrap32 (if LONG_MAX pf < strtol_value inp then LONG_MAX pf
             else if strtol_value inp < - LONG_MAX pf - 1 then - LONG_MAX pf - 1
             else strtol_value inp)"

definition rejected_option :: "platform \<Rightarrow> char \<times> string \<Rightarrow> bool" where
  "rejected_option pf opt =
     (if fst opt \<in> set ''PRS'' then converted pf (snd opt) < 1
      else if fst opt = CHR ''n'' then converted pf (snd opt) < 0
      else fst opt \<notin> set ''chlqst'')"

definition last_arg :: "char \<Rightarrow> (char \<times> string) list \<Rightarrow> string option" where
  "last_arg ch opts = map_of (rev opts) ch"

definition option_given :: "char \<Rightarrow> (char \<times> string) list \<Rightarrow> bool" where
  "option_given ch opts = (last_arg ch opts \<noteq> None)"

definition chosen_variant :: "(char \<times> string) list \<Rightarrow> ipc_type" where
  "chosen_variant opts =
     (case last_arg (CHR ''t'') opts of
        None \<Rightarrow> IPC_PIPE
      | Some t \<Rightarrow>
          if strcasecmp_eq t ''fifo'' then IPC_FIFO
          else if strcasecmp_eq t ''pipe'' then IPC_PIPE
          else if strcasecmp_eq t ''socket'' then IPC_SOCKET
          else if strcasecmp_eq t ''socketpair'' then IPC_SOCKETPAIR
          else IPC_PIPE)"

definition chosen_socktype :: "(char \<times> string) list \<Rightarrow> string" where
  "chosen_socktype opts = (case last_arg (CHR ''s'') opts of None \<Rightarrow> ''DGRAM'' | Some a \<Rightarrow> a)"

definition socktype_name :: "string \<Rightarrow> string" where
  "socktype_name str =
     (if strncmp_eq str ''inet-'' then drop 5 str
      else if strncmp_eq str ''inet6-'' then drop 6 str
      else str)"

definition configuration_error :: "platform \<Rightarrow> (char \<times> string) list \<Rightarrow> string list \<Rightarrow> bool" where
  "configuration_error pf opts args =
     (list_ex (rejected_option pf) opts
      \<or> 2 < length args
      \<or> (option_given (CHR ''P'') opts \<and> chosen_variant opts \<noteq> IPC_PIPE)
      \<or> (option_given (CHR ''s'') opts
           \<and> chosen_variant opts \<noteq> IPC_SOCKET \<and> chosen_variant opts \<noteq> IPC_SOCKETPAIR)
      \<or> (strncmp_eq (chosen_socktype opts) ''inet'' \<and> chosen_variant opts \<noteq> IPC_SOCKET)
      \<or> (\<not> strcasecmp_eq (socktype_name (chosen_socktype opts)) ''stream''
           \<and> \<not> strcasecmp_eq (socktype_name (chosen_socktype opts)) ''dgram'')
      \<or> list_ex (\<lambda>a. converted pf a < 0) (take 2 args))"

definition ends_options :: "platform \<Rightarrow> char \<times> string \<Rightarrow> bool" where
  "ends_options pf opt = (fst opt = CHR ''h'' \<or> rejected_option pf opt)"

definition help_first :: "platform \<Rightarrow> (char \<times> string) list \<Rightarrow> bool" where
  "help_first pf opts =
     (case dropWhile (\<lambda>opt. \<not> ends_options pf opt) opts of
        [] \<Rightarrow> False
      | opt # rest \<Rightarrow> fst opt = CHR ''h'')"

section \<open>Basic facts\<close>

lemma wrap32_id: "- 2147483648 \<le> x \<Longrightarrow> x \<le> 2147483647 \<Longrightarrow> wrap32 x = x"
  by (simp add: wrap32_def)

lemma wrap32_range: "- 2147483648 \<le> wrap32 x \<and> wrap32 x \<le> 2147483647"
  unfolding wrap32_def
  using pos_mod_bound [of 4294967296 "x + 2147483648"] pos_mod_sign [of 4294967296 "x + 2147483648"]
  by linarith

lemma sysc_result:
  "sysc os c s = (r, s1) \<Longrightarrow>
     os (kern s) c = (r, kern s1) \<and> trace s1 = trace s @ [(c, r)] \<and> printed s1 = printed s
     \<and> errno s1 = (case r of Fail e \<Rightarrow> e | _ \<Rightarrow> errno s)
     \<and> TOTAL s1 = TOTAL s \<and> LARGEST_CHUNK s1 = LARGEST_CHUNK s \<and> QUIET s1 = QUIET s
     \<and> NUM_CHUNKS s1 = NUM_CHUNKS s \<and> CHUNK1 s1 = CHUNK1 s \<and> CHUNK2 s1 = CHUNK2 s
     \<and> MODE s1 = MODE s \<and> IPC_TYPE s1 = IPC_TYPE s"
  by (auto simp: sysc_def Let_def split: prod.splits sysret.splits)

text \<open>One unfolding of the retry loop, and the induction that follows its retries.\<close>

lemma writeChunk_again_unfold:
  assumes "sysc os (Write fd count) s = (r, s1)"
  shows "writeChunk_again os fd wanted failed count s =
     (if wrap32 (rv r) < 0 then
        if errno s1 = EMSGSIZE \<or> errno s1 = ENOBUFS then
          if wrap32 (count - 1) < 1 then Return (-1) (eprint (Unable_single (errno s1)) s1)
          else writeChunk_again os fd wanted True (wrap32 (count - 1)) s1
        else if errno s1 = EAGAIN then
          Return (-1) (eprint (Unable_more count EAGAIN)
             (if failed \<and> \<not> QUIET s1 then print (Labelled ''MSGSIZE'' count) s1 else s1))
        else err ''write'' s1
      else
        Return (wrap32 (rv r))
          ((if \<not> QUIET s1
            then print (Wrote (wrap32 (rv r)) wanted (wrap32 (TOTAL s1 + wrap32 (rv r))))
                   (s1\<lparr>TOTAL := wrap32 (TOTAL s1 + wrap32 (rv r))\<rparr>)
            else s1\<lparr>TOTAL := wrap32 (TOTAL s1 + wrap32 (rv r))\<rparr>)
           \<lparr>LARGEST_CHUNK := max (LARGEST_CHUNK s1) (wrap32 (rv r))\<rparr>))"
  using assms
  by (subst writeChunk_again.simps)
     (auto simp: Let_def print_def eprint_def max_def)

lemma writeChunk_again_retries [consumes 0, case_names again]:
  fixes P :: "'k os \<Rightarrow> int \<Rightarrow> int \<Rightarrow> bool \<Rightarrow> int \<Rightarrow> 'k pstate \<Rightarrow> bool"
  assumes step: "\<And>os fd wanted failed count s.
     (\<And>r s1. sysc os (Write fd count) s = (r, s1) \<Longrightarrow> wrap32 (rv r) < 0 \<Longrightarrow>
        errno s1 = EMSGSIZE \<or> errno s1 = ENOBUFS \<Longrightarrow> \<not> wrap32 (count - 1) < 1 \<Longrightarrow>
        P os fd wanted True (wrap32 (count - 1)) s1) \<Longrightarrow>
     P os fd wanted failed count s"
  shows "P os fd wanted failed count s"
proof (induction os fd wanted failed count s rule: writeChunk_again.induct)
  case (1 os fd wanted failed count s)
  show ?case
  proof (rule step)
    fix r s1
    assume "sysc os (Write fd count) s = (r, s1)" "wrap32 (rv r) < 0"
      "errno s1 = EMSGSIZE \<or> errno s1 = ENOBUFS" "\<not> wrap32 (count - 1) < 1"
    then show "P os fd wanted True (wrap32 (count - 1)) s1"
      using "1.IH" [of "(r, s1)" r s1 "wrap32 (rv r)" "wrap32 (count - 1)"] by simp
  qed
qed

lemma writeChunk_unfold:
  "sysc os (Malloc count) s = (r, s1) \<Longrightarrow>
   writeChunk os fd count s =
     (case r of Fail e \<Rightarrow> err ''malloc'' s1 | _ \<Rightarrow> writeChunk_again os fd count False count s1)"
  by (simp add: writeChunk_def)

lemma writeChunk_again_effect:
  "writeChunk_again os fd wanted failed count s = Return n s' \<Longrightarrow>
     (n = -1 \<and> TOTAL s' = TOTAL s \<and> LARGEST_CHUNK s' = LARGEST_CHUNK s) \<or>
     (0 \<le> n \<and> TOTAL s' = wrap32 (TOTAL s + n) \<and> LARGEST_CHUNK s' = max (LARGEST_CHUNK s) n)"
proof (induction os fd wanted failed count s rule: writeChunk_again_retries)
  case (again os fd wanted failed count s)
  obtain r s1 where c: "sysc os (Write fd count) s = (r, s1)"
    by (cases "sysc os (Write fd count) s")
  note f = sysc_result [OF c]
  from again.prems again.IH [OF c] f show ?case
    unfolding writeChunk_again_unfold [OF c]
    by (auto simp: err_def print_def eprint_def split: if_splits)
qed

lemma writeChunk_effect:
  "writeChunk os fd count s = Return n s' \<Longrightarrow>
     (n = -1 \<and> TOTAL s' = TOTAL s \<and> LARGEST_CHUNK s' = LARGEST_CHUNK s) \<or>
     (0 \<le> n \<and> TOTAL s' = wrap32 (TOTAL s + n) \<and> LARGEST_CHUNK s' = max (LARGEST_CHUNK s) n)"
proof -
  assume w: "writeChunk os fd count s = Return n s'"
  obtain r s1 where c: "sysc os (Malloc count) s = (r, s1)"
    by (cases "sysc os (Malloc count) s")
  note f = sysc_result [OF c]
  from w have "writeChunk_again os fd count False count s1 = Return n s'"
    unfolding writeChunk_unfold [OF c] by (cases r) (auto simp: err_def)
  from writeChunk_again_effect [OF this] f show ?thesis
    by auto
qed

section \<open>The shrinking retry (C5)\<close>



section \<open>The accounting of one write (C10)\<close>

text \<open>
  Claim C10. \<open>writeChunk\<close> changes the running total and the largest-chunk record all
  at once or not at all. When it returns \<open>-1\<close>, both are as before. When it returns
  \<open>n \<ge> 0\<close>, whether \<open>n\<close> is the requested size or less, \<open>TOTAL\<close> has grown by \<open>n\<close> in
  32-bit arithmetic, hence by exactly \<open>n\<close> as long as the sum is representable as an
  \<open>int\<close>, and \<open>LARGEST_CHUNK\<close> is the larger of its old value and \<open>n\<close>. It returns no
  other value.
\<close>

theorem writeChunk_accounting:
  "writeChunk os fd count s = Return n s' \<Longrightarrow>
     (n = -1 \<and> TOTAL s' = TOTAL s \<and> LARGEST_CHUNK s' = LARGEST_CHUNK s) \<or>
     (0 \<le> n \<and> TOTAL s' = wrap32 (TOTAL s + n)
        \<and> (- 2147483648 \<le> TOTAL s \<and> TOTAL s + n \<le> INT_MAX \<longrightarrow> TOTAL s' = TOTAL s + n)
        \<and> LARGEST_CHUNK s' = max (LARGEST_CHUNK s) n)"
  using writeChunk_effect [of os fd count s n s']
  by (auto simp: wrap32_id INT_MAX_def)

text \<open>
  A write of 10 bytes to a pipe with room for 7: the partial write returns 7, and both
  records become 7.
\<close>

theorem writeChunk_accounting_witness:
  "writeChunk (pipe_os 12) 4 10 (init_state 5) =
     Return 7 ((init_state 12)\<lparr>TOTAL := 7, LARGEST_CHUNK := 7,
        trace := [(Malloc 10, Ok 1), (Write 4 10, Ok 7)], printed := [(Stdout, Wrote 7 10 7)]\<rparr>)
   \<and> TOTAL (init_state (5::int)) + 7 \<le> INT_MAX
   \<and> (0::int) \<le> 7"
proof -
  have h: "writeChunk (pipe_os 12) 4 10 (init_state 5) =
     Return 7 ((init_state 12)\<lparr>TOTAL := 7, LARGEST_CHUNK := 7,
        trace := [(Malloc 10, Ok 1), (Write 4 10, Ok 7)], printed := [(Stdout, Wrote 7 10 7)]\<rparr>)"
    by (simp add: writeChunk_def sysc_def init_state_def writeChunk_again.simps wrap32_def
          print_def)
  from writeChunk_accounting [OF h] h show ?thesis
    by (simp add: init_state_def INT_MAX_def)
qed


section \<open>The loop of writeLoop\<close>

lemma wrap32_add_left: "wrap32 (wrap32 a + b) = wrap32 (a + b)"
proof -
  have "((a + 2147483648) mod 4294967296 - 2147483648 + b + 2147483648) mod 4294967296
        = ((a + 2147483648) mod 4294967296 + b) mod 4294967296"
    by simp
  also have "\<dots> = (a + 2147483648 + b) mod 4294967296"
    by (rule mod_add_left_eq)
  also have "a + 2147483648 + b = a + b + 2147483648"
    by simp
  finally show ?thesis
    unfolding wrap32_def by simp
qed

lemma writeChunk_again_range:
  "writeChunk_again os fd wanted failed count s = Return n s' \<Longrightarrow> - 1 \<le> n \<and> n \<le> INT_MAX"
proof (induction os fd wanted failed count s rule: writeChunk_again_retries)
  case (again os fd wanted failed count s)
  obtain r s1 where c: "sysc os (Write fd count) s = (r, s1)"
    by (cases "sysc os (Write fd count) s")
  from again.prems again.IH [OF c] wrap32_range [of "rv r"] show ?case
    unfolding writeChunk_again_unfold [OF c]
    by (auto simp: err_def INT_MAX_def split: if_splits)
qed

lemma writeChunk_range:
  "writeChunk os fd count s = Return n s' \<Longrightarrow> - 1 \<le> n \<and> n \<le> INT_MAX"
proof -
  assume w: "writeChunk os fd count s = Return n s'"
  obtain r s1 where c: "sysc os (Malloc count) s = (r, s1)"
    by (cases "sysc os (Malloc count) s")
  from w have "writeChunk_again os fd count False count s1 = Return n s'"
    unfolding writeChunk_unfold [OF c] by (cases r) (auto simp: err_def)
  then show ?thesis by (rule writeChunk_again_range)
qed

lemma after_accepted_Suc:
  "after_accepted os fd inc (Suc N) count s = Some sN \<Longrightarrow>
     \<exists>s1. writeChunk os fd count s = Return count s1 \<and> 0 \<le> count \<and> count \<le> INT_MAX
          \<and> after_accepted os fd inc N (grow inc count) s1 = Some sN"
  using writeChunk_range [of os fd count s]
  by (auto split: result.splits if_splits)

lemma after_accepted_loop:
  "after_accepted os fd inc N count s = Some sN \<Longrightarrow>
   writeLoop_while os fd inc count i s =
     writeLoop_while os fd inc ((grow inc ^^ N) count) (((\<lambda>i. wrap32 (i + 1)) ^^ N) i) sN"
proof (induction N arbitrary: count i s)
  case 0
  then show ?case by simp
next
  case (Suc N)
  from after_accepted_Suc [OF Suc.prems] obtain s1 where
    s1: "writeChunk os fd count s = Return count s1" "0 \<le> count"
        "after_accepted os fd inc N (grow inc count) s1 = Some sN"
    by blast
  from s1(1,2) have "writeLoop_while os fd inc count i s =
      writeLoop_while os fd inc (grow inc count) (wrap32 (i + 1)) s1"
    by (subst writeLoop_while.simps) simp
  with Suc.IH [OF s1(3), of "wrap32 (i + 1)"] show ?case
    unfolding funpow_Suc_right o_apply by simp
qed

lemma after_accepted_prefix:
  "after_accepted os fd inc N count s = Some sN \<Longrightarrow> M \<le> N \<Longrightarrow>
   \<exists>sM. after_accepted os fd inc M count s = Some sM"
proof (induction N arbitrary: count s M)
  case 0
  then show ?case by simp
next
  case (Suc N)
  from after_accepted_Suc [OF Suc.prems(1)] obtain s1 where
    s1: "writeChunk os fd count s = Return count s1" "0 \<le> count"
        "after_accepted os fd inc N (grow inc count) s1 = Some sN"
    by blast
  show ?case
  proof (cases M)
    case 0
    then show ?thesis by simp
  next
    case (Suc M')
    with Suc.prems(2) Suc.IH [OF s1(3), of M'] s1(1,2) show ?thesis by auto
  qed
qed

lemma after_accepted_sizes:
  "after_accepted os fd inc N count s = Some sN \<Longrightarrow> j < N \<Longrightarrow>
   0 \<le> (grow inc ^^ j) count \<and> (grow inc ^^ j) count \<le> INT_MAX"
proof (induction N arbitrary: count s j)
  case 0
  then show ?case by simp
next
  case (Suc N)
  from after_accepted_Suc [OF Suc.prems(1)] obtain s1 where
    s1: "writeChunk os fd count s = Return count s1" "0 \<le> count" "count \<le> INT_MAX"
        "after_accepted os fd inc N (grow inc count) s1 = Some sN"
    by blast
  show ?case
  proof (cases j)
    case 0
    with s1 show ?thesis by simp
  next
    case (Suc j')
    with Suc.prems(2) Suc.IH [OF s1(4), of j'] show ?thesis
      by (simp add: funpow_swap1)
  qed
qed

lemma wrap32_nonneg_id:
  assumes "0 \<le> x" "x \<le> 4294967294" "0 \<le> wrap32 x"
  shows "wrap32 x = x"
proof (cases "x < 2147483648")
  case True
  with assms(1) show ?thesis by (simp add: wrap32_id)
next
  case False
  have "x + 2147483648 = x - 2147483648 + 4294967296"
    by simp
  then have "(x + 2147483648) mod 4294967296 = (x - 2147483648 + 4294967296) mod 4294967296"
    by (rule arg_cong)
  also have "\<dots> = (x - 2147483648) mod 4294967296"
    by (rule mod_add_self2)
  also have "\<dots> = x - 2147483648"
    using False assms(2) by (intro mod_pos_pos_trivial) simp_all
  finally have "wrap32 x = x - 4294967296"
    unfolding wrap32_def by simp
  with assms(2,3) show ?thesis by simp
qed

lemma grow_mono:
  assumes "inc = -1 \<or> (0 \<le> inc \<and> inc \<le> INT_MAX)" "0 \<le> c" "c \<le> INT_MAX" "0 \<le> grow inc c"
  shows "c \<le> grow inc c"
proof (cases "inc = -1")
  case True
  with assms have "wrap32 (c * 2) = c * 2"
    by (intro wrap32_nonneg_id) (simp_all add: grow_def INT_MAX_def)
  with True assms(2) show ?thesis by (simp add: grow_def)
next
  case False
  with assms have "wrap32 (c + inc) = c + inc"
    by (intro wrap32_nonneg_id) (simp_all add: grow_def INT_MAX_def)
  with False assms(1) show ?thesis by (simp add: grow_def)
qed

lemma writeChunk_total:
  "writeChunk os fd count s = Return n s' \<Longrightarrow> 0 \<le> n \<Longrightarrow> TOTAL s' = wrap32 (TOTAL s + n)"
  using writeChunk_effect [of os fd count s n s'] by auto

lemma after_accepted_total:
  "after_accepted os fd inc N count s = Some sN \<Longrightarrow> int32 (TOTAL s) \<Longrightarrow>
   TOTAL sN = wrap32 (TOTAL s + (\<Sum>j<N. (grow inc ^^ j) count))"
proof (induction N arbitrary: count s)
  case 0
  then show ?case by (simp add: wrap32_id int32_def)
next
  case (Suc N)
  from after_accepted_Suc [OF Suc.prems(1)] obtain s1 where
    s1: "writeChunk os fd count s = Return count s1" "0 \<le> count"
        "after_accepted os fd inc N (grow inc count) s1 = Some sN"
    by blast
  have t1: "TOTAL s1 = wrap32 (TOTAL s + count)"
    using s1(1,2) by (rule writeChunk_total)
  then have "int32 (TOTAL s1)"
    using wrap32_range [of "TOTAL s + count"] by (simp add: int32_def)
  from Suc.IH [OF s1(3) this] t1
  have "TOTAL sN = wrap32 (TOTAL s + (count + (\<Sum>j<N. (grow inc ^^ j) (grow inc count))))"
    by (simp add: wrap32_add_left add.assoc)
  also have "count + (\<Sum>j<N. (grow inc ^^ j) (grow inc count)) = (\<Sum>j<Suc N. (grow inc ^^ j) count)"
    unfolding sum.lessThan_Suc_shift by (simp add: funpow_swap1)
  finally show ?case .
qed

lemma counter_simps:
  "counter 0 i = i" "counter (Suc N) i = counter N (wrap32 (i + 1))"
  unfolding counter_def by (simp_all only: funpow_Suc_right o_apply funpow_0)

lemma grow_Suc: "(grow inc ^^ Suc N) count = (grow inc ^^ N) (grow inc count)"
  by (simp only: funpow_Suc_right o_apply)

lemma writeLoop_while_decompose:
  assumes run: "writeLoop_while os fd inc count i s = Some res"
  shows "\<exists>N sN. after_accepted os fd inc N count s = Some sN \<and>
     (case writeChunk os fd ((grow inc ^^ N) count) sN of
        Exit st s' \<Rightarrow> res = Exit st s'
      | Return n s' \<Rightarrow>
          (n \<noteq> (grow inc ^^ N) count \<or> n < 0)
          \<and> res = Return (if 0 < n then wrap32 (counter N i + 1) else counter N i) s')"
proof (rule writeLoop_while.raw_induct
    [where P = "\<lambda>os fd inc count i s res.
      \<exists>N sN. after_accepted os fd inc N count s = Some sN \<and>
       (case writeChunk os fd ((grow inc ^^ N) count) sN of
          Exit st s' \<Rightarrow> res = Exit st s'
        | Return n s' \<Rightarrow>
            (n \<noteq> (grow inc ^^ N) count \<or> n < 0)
            \<and> res = Return (if 0 < n then wrap32 (counter N i + 1) else counter N i) s')",
     OF _ run], goal_cases)
  case (1 loop os fd inc count i s res)
  note IH = "1"(1) and body = "1"(2)
  show ?case
  proof (cases "writeChunk os fd count s")
    case (Exit st s1)
    with body show ?thesis
      by (intro exI [of _ 0] exI [of _ s]) (auto simp: counter_simps)
  next
    case (Return n s1)
    show ?thesis
    proof (cases "n \<noteq> count \<or> n < 0")
      case True
      with Return body show ?thesis
        by (intro exI [of _ 0] exI [of _ s]) (auto simp: counter_simps)
    next
      case False
      with Return body
      have "loop os fd inc (grow inc count) (wrap32 (i + 1)) s1 = Some res"
        by simp
      from IH [OF this] obtain N sN where
        n: "after_accepted os fd inc N (grow inc count) s1 = Some sN"
           "(case writeChunk os fd ((grow inc ^^ N) (grow inc count)) sN of
              Exit st s' \<Rightarrow> res = Exit st s'
            | Return n s' \<Rightarrow>
                (n \<noteq> (grow inc ^^ N) (grow inc count) \<or> n < 0)
                \<and> res = Return (if 0 < n then wrap32 (counter N (wrap32 (i + 1)) + 1)
                                else counter N (wrap32 (i + 1))) s')"
        by (elim exE conjE)
      from n(1) Return False have a: "after_accepted os fd inc (Suc N) count s = Some sN"
        by simp
      show ?thesis
      proof (intro exI conjI)
        show "after_accepted os fd inc (Suc N) count s = Some sN"
          by (rule a)
        show "case writeChunk os fd ((grow inc ^^ Suc N) count) sN of
                Exit st s' \<Rightarrow> res = Exit st s'
              | Return n s' \<Rightarrow>
                  (n \<noteq> (grow inc ^^ Suc N) count \<or> n < 0)
                  \<and> res = Return (if 0 < n then wrap32 (counter (Suc N) i + 1)
                                  else counter (Suc N) i) s'"
          unfolding grow_Suc counter_simps by (rule n(2))
      qed
    qed
  qed
qed


lemma after_accepted_monotone:
  assumes inc: "inc = -1 \<or> (0 \<le> inc \<and> inc \<le> INT_MAX)"
      and acc: "after_accepted os fd inc N count s = Some sN"
      and j: "Suc j < N"
  shows "(grow inc ^^ j) count \<le> (grow inc ^^ Suc j) count"
proof -
  from after_accepted_sizes [OF acc, of j] j
  have a: "0 \<le> (grow inc ^^ j) count" "(grow inc ^^ j) count \<le> INT_MAX"
    by simp_all
  from after_accepted_sizes [OF acc j]
  have "0 \<le> grow inc ((grow inc ^^ j) count)"
    by simp
  from grow_mono [OF inc a this] show ?thesis by simp
qed

section \<open>Loop mode: growing sizes and the running total (C4)\<close>

text \<open>
  Claim C4, for an increment that is \<open>-1\<close> (doubling) or not negative, in both
  directions.
  \<^item> Every run of the loop of \<open>writeLoop\<close> that ends has a number \<open>N\<close> of chunks that were
    accepted, that is written in full, the \<open>j\<close>-th of size \<open>(grow inc ^^ j) count\<close>; each
    accepted size is at least the one before; after the first \<open>M\<close> accepted writes, for
    every \<open>M \<le> N\<close>, the running total is the total at the start plus the sum of the
    first \<open>M\<close> accepted sizes (in 32-bit arithmetic, hence exactly as long as the sum is
    representable as an \<open>int\<close>); and the loop ended at the next chunk, which is the first
    that is not written in full (\<open>writeChunk\<close> returns another value than the size, or
    \<open>-1\<close>) or that ends the process.
  \<^item> The loop does stop there: when the first \<open>K\<close> chunks are accepted and the next one
    ends the process, the loop is that exit; when the next one is not written in full,
    the loop returns at once, in the state after that write, with the count \<open>K\<close>, plus
    one if the write took at least one byte.
\<close>

theorem loop_mode_monotonic_running_total:
  assumes inc: "inc = -1 \<or> (0 \<le> inc \<and> inc \<le> INT_MAX)"
      and tot: "int32 (TOTAL s)"
  shows "(writeLoop_while os fd inc count i s = Some res \<longrightarrow>
      (\<exists>N sN. after_accepted os fd inc N count s = Some sN
       \<and> (\<forall>j. Suc j < N \<longrightarrow> (grow inc ^^ j) count \<le> (grow inc ^^ Suc j) count)
       \<and> (\<forall>M\<le>N. \<exists>sM. after_accepted os fd inc M count s = Some sM
              \<and> TOTAL sM = wrap32 (TOTAL s + (\<Sum>j<M. (grow inc ^^ j) count))
              \<and> (TOTAL s + (\<Sum>j<M. (grow inc ^^ j) count) \<le> INT_MAX
                   \<longrightarrow> TOTAL sM = TOTAL s + (\<Sum>j<M. (grow inc ^^ j) count)))
       \<and> (case writeChunk os fd ((grow inc ^^ N) count) sN of
            Exit st s' \<Rightarrow> res = Exit st s'
          | Return n s' \<Rightarrow> (n \<noteq> (grow inc ^^ N) count \<or> n < 0) \<and> final res = s')))
   \<and> (after_accepted os fd inc K count s = Some sK
        \<and> writeChunk os fd ((grow inc ^^ K) count) sK = Exit st t \<longrightarrow>
          writeLoop_while os fd inc count i s = Some (Exit st t))
   \<and> (after_accepted os fd inc K count s = Some sK
        \<and> writeChunk os fd ((grow inc ^^ K) count) sK = Return n t
        \<and> (n \<noteq> (grow inc ^^ K) count \<or> n < 0) \<longrightarrow>
          writeLoop_while os fd inc count i s =
            Some (Return (if 0 < n then wrap32 (counter K i + 1) else counter K i) t))"
proof (intro conjI impI)
  assume run: "writeLoop_while os fd inc count i s = Some res"
  from writeLoop_while_decompose [OF run] obtain N sN where
    acc: "after_accepted os fd inc N count s = Some sN"
    and stop: "case writeChunk os fd ((grow inc ^^ N) count) sN of
        Exit st s' \<Rightarrow> res = Exit st s'
      | Return n s' \<Rightarrow>
          (n \<noteq> (grow inc ^^ N) count \<or> n < 0)
          \<and> res = Return (if 0 < n then wrap32 (counter N i + 1) else counter N i) s'"
    by (elim exE conjE)
  have mono: "\<forall>j. Suc j < N \<longrightarrow> (grow inc ^^ j) count \<le> (grow inc ^^ Suc j) count"
    using after_accepted_monotone [OF inc acc] by blast
  have totals: "\<forall>M\<le>N. \<exists>sM. after_accepted os fd inc M count s = Some sM
            \<and> TOTAL sM = wrap32 (TOTAL s + (\<Sum>j<M. (grow inc ^^ j) count))
            \<and> (TOTAL s + (\<Sum>j<M. (grow inc ^^ j) count) \<le> INT_MAX
                 \<longrightarrow> TOTAL sM = TOTAL s + (\<Sum>j<M. (grow inc ^^ j) count))"
  proof (intro allI impI)
    fix M assume M: "M \<le> N"
    from after_accepted_prefix [OF acc M] obtain sM where
      sM: "after_accepted os fd inc M count s = Some sM" ..
    have t: "TOTAL sM = wrap32 (TOTAL s + (\<Sum>j<M. (grow inc ^^ j) count))"
      using sM tot by (rule after_accepted_total)
    have "0 \<le> (\<Sum>j<M. (grow inc ^^ j) count)"
      using after_accepted_sizes [OF sM] by (intro sum_nonneg) simp
    with tot t have "TOTAL s + (\<Sum>j<M. (grow inc ^^ j) count) \<le> INT_MAX
                 \<longrightarrow> TOTAL sM = TOTAL s + (\<Sum>j<M. (grow inc ^^ j) count)"
      by (simp add: wrap32_id int32_def INT_MAX_def)
    with sM t show "\<exists>sM. after_accepted os fd inc M count s = Some sM
            \<and> TOTAL sM = wrap32 (TOTAL s + (\<Sum>j<M. (grow inc ^^ j) count))
            \<and> (TOTAL s + (\<Sum>j<M. (grow inc ^^ j) count) \<le> INT_MAX
                 \<longrightarrow> TOTAL sM = TOTAL s + (\<Sum>j<M. (grow inc ^^ j) count))"
      by blast
  qed
  have last: "case writeChunk os fd ((grow inc ^^ N) count) sN of
          Exit st s' \<Rightarrow> res = Exit st s'
        | Return n s' \<Rightarrow> (n \<noteq> (grow inc ^^ N) count \<or> n < 0) \<and> final res = s'"
    using stop by (cases "writeChunk os fd ((grow inc ^^ N) count) sN") simp_all
  from acc mono totals last
  show "\<exists>N sN. after_accepted os fd inc N count s = Some sN
       \<and> (\<forall>j. Suc j < N \<longrightarrow> (grow inc ^^ j) count \<le> (grow inc ^^ Suc j) count)
       \<and> (\<forall>M\<le>N. \<exists>sM. after_accepted os fd inc M count s = Some sM
              \<and> TOTAL sM = wrap32 (TOTAL s + (\<Sum>j<M. (grow inc ^^ j) count))
              \<and> (TOTAL s + (\<Sum>j<M. (grow inc ^^ j) count) \<le> INT_MAX
                   \<longrightarrow> TOTAL sM = TOTAL s + (\<Sum>j<M. (grow inc ^^ j) count)))
       \<and> (case writeChunk os fd ((grow inc ^^ N) count) sN of
            Exit st s' \<Rightarrow> res = Exit st s'
          | Return n s' \<Rightarrow> (n \<noteq> (grow inc ^^ N) count \<or> n < 0) \<and> final res = s')"
    by blast
next
  assume a: "after_accepted os fd inc K count s = Some sK
        \<and> writeChunk os fd ((grow inc ^^ K) count) sK = Exit st t"
  from a have "writeLoop_while os fd inc count i s =
      writeLoop_while os fd inc ((grow inc ^^ K) count) (counter K i) sK"
    unfolding counter_def by (intro after_accepted_loop) simp
  also from a have "\<dots> = Some (Exit st t)"
    by (subst writeLoop_while.simps) simp
  finally show "writeLoop_while os fd inc count i s = Some (Exit st t)" .
next
  assume a: "after_accepted os fd inc K count s = Some sK
        \<and> writeChunk os fd ((grow inc ^^ K) count) sK = Return n t
        \<and> (n \<noteq> (grow inc ^^ K) count \<or> n < 0)"
  from a have "writeLoop_while os fd inc count i s =
      writeLoop_while os fd inc ((grow inc ^^ K) count) (counter K i) sK"
    unfolding counter_def by (intro after_accepted_loop) simp
  also from a have "\<dots> = Some (Return (if 0 < n then wrap32 (counter K i + 1) else counter K i) t)"
    by (subst writeLoop_while.simps) auto
  finally show "writeLoop_while os fd inc count i s =
            Some (Return (if 0 < n then wrap32 (counter K i + 1) else counter K i) t)" .
qed

text \<open>
  Doubling from 1 into a pipe with room for 12 bytes: 1, 2 and 4 bytes are accepted, the
  write of 8 bytes takes 5 and ends the loop. Growing by 3 from 4 into the same pipe: 4
  and 7 bytes are accepted, the write of 10 bytes takes 1 and the loop returns with the
  count 3. A first write that fails with another error than the three that
  \<open>writeChunk\<close> handles: the loop is the exit of the process.
\<close>

theorem loop_mode_monotonic_running_total_witness:
  "((-1::int) = -1 \<or> (0 \<le> (-1::int) \<and> (-1::int) \<le> INT_MAX))
   \<and> int32 (TOTAL (init_state (0::int)))
   \<and> writeLoop_while (pipe_os 12) 4 (-1) 1 0 (init_state 0) = Some (Return 4 loop12_end)
   \<and> (\<exists>N sN. after_accepted (pipe_os 12) 4 (-1) N 1 (init_state 0) = Some sN
     \<and> (\<forall>j. Suc j < N \<longrightarrow> (grow (-1) ^^ j) 1 \<le> (grow (-1) ^^ Suc j) 1)
     \<and> (\<forall>M\<le>N. \<exists>sM. after_accepted (pipe_os 12) 4 (-1) M 1 (init_state 0) = Some sM
            \<and> TOTAL sM = wrap32 (TOTAL (init_state (0::int)) + (\<Sum>j<M. (grow (-1) ^^ j) 1))
            \<and> (TOTAL (init_state (0::int)) + (\<Sum>j<M. (grow (-1) ^^ j) 1) \<le> INT_MAX
                 \<longrightarrow> TOTAL sM = TOTAL (init_state (0::int)) + (\<Sum>j<M. (grow (-1) ^^ j) 1)))
     \<and> (case writeChunk (pipe_os 12) 4 ((grow (-1) ^^ N) 1) sN of
          Exit st s' \<Rightarrow> Return (4::int) loop12_end = Exit st s'
        | Return n s' \<Rightarrow> (n \<noteq> (grow (-1) ^^ N) 1 \<or> n < 0) \<and> final (Return (4::int) loop12_end) = s'))
   \<and> ((3::int) = -1 \<or> (0 \<le> (3::int) \<and> (3::int) \<le> INT_MAX))
   \<and> after_accepted (pipe_os 12) 4 3 2 4 (init_state 0) = Some grow3_mid
   \<and> (grow 3 ^^ 2) 4 = 10
   \<and> writeChunk (pipe_os 12) 4 10 grow3_mid = Return 1 grow3_end
   \<and> writeLoop_while (pipe_os 12) 4 3 4 0 (init_state 0) = Some (Return 3 grow3_end)
   \<and> writeChunk (script_os :: sysret list os) 4 1 (init_state [Ok 1, Fail (EOTHER 5)])
       = Exit EXIT_FAILURE
           (eprint (Err_line ''write'' (EOTHER 5))
              ((init_state [])\<lparr>errno := EOTHER 5,
                  trace := [(Malloc 1, Ok 1), (Write 4 1, Fail (EOTHER 5))]\<rparr>))
   \<and> writeLoop_while (script_os :: sysret list os) 4 (-1) 1 0 (init_state [Ok 1, Fail (EOTHER 5)])
       = Some (Exit EXIT_FAILURE
           (eprint (Err_line ''write'' (EOTHER 5))
              ((init_state [])\<lparr>errno := EOTHER 5,
                  trace := [(Malloc 1, Ok 1), (Write 4 1, Fail (EOTHER 5))]\<rparr>)))"
proof -
  have h1: "(-1::int) = -1 \<or> (0 \<le> (-1::int) \<and> (-1::int) \<le> INT_MAX)"
    by simp
  have h2: "int32 (TOTAL (init_state (0::int)))"
    by (simp add: init_state_def int32_def)
  have h3: "writeLoop_while (pipe_os 12) 4 (-1) 1 0 (init_state 0) = Some (Return 4 loop12_end)"
    by (simp add: writeLoop_while.simps writeChunk_def sysc_def init_state_def
          writeChunk_again.simps wrap32_def print_def grow_def loop12_end_def)
  note t1 = loop_mode_monotonic_running_total [OF h1 h2, THEN conjunct1, rule_format, OF h3]
  have g1: "(3::int) = -1 \<or> (0 \<le> (3::int) \<and> (3::int) \<le> INT_MAX)"
    by (simp add: INT_MAX_def)
  have g3: "after_accepted (pipe_os 12) 4 3 2 4 (init_state 0) = Some grow3_mid"
    by (simp add: numeral_2_eq_2 writeChunk_def sysc_def init_state_def writeChunk_again.simps
          wrap32_def print_def grow_def grow3_mid_def)
  have g4: "(grow 3 ^^ 2) 4 = 10"
    by (simp add: numeral_2_eq_2 grow_def wrap32_def)
  have g5: "writeChunk (pipe_os 12) 4 10 grow3_mid = Return 1 grow3_end"
    by (simp add: writeChunk_def sysc_def init_state_def writeChunk_again.simps
          wrap32_def print_def eprint_def grow3_mid_def grow3_end_def)
  have c: "counter 2 0 = 2"
    by (simp add: numeral_2_eq_2 counter_simps wrap32_def)
  from g3 g5 g4
  have pre: "after_accepted (pipe_os 12) 4 3 2 4 (init_state 0) = Some grow3_mid
        \<and> writeChunk (pipe_os 12) 4 ((grow 3 ^^ 2) 4) grow3_mid = Return 1 grow3_end
        \<and> ((1::int) \<noteq> (grow 3 ^^ 2) 4 \<or> (1::int) < 0)"
    by simp
  from loop_mode_monotonic_running_total [OF g1 h2, THEN conjunct2, THEN conjunct2, rule_format,
       OF pre, of 0]
  have g6: "writeLoop_while (pipe_os 12) 4 3 4 0 (init_state 0) = Some (Return 3 grow3_end)"
    by (simp add: c wrap32_def)
  have e1: "writeChunk (script_os :: sysret list os) 4 1 (init_state [Ok 1, Fail (EOTHER 5)])
       = Exit EXIT_FAILURE
           (eprint (Err_line ''write'' (EOTHER 5))
              ((init_state [])\<lparr>errno := EOTHER 5,
                  trace := [(Malloc 1, Ok 1), (Write 4 1, Fail (EOTHER 5))]\<rparr>))"
    by (simp add: writeChunk_def sysc_def init_state_def writeChunk_again.simps
          wrap32_def print_def eprint_def err_def)
  have e0: "after_accepted (script_os :: sysret list os) 4 (-1) 0 1 (init_state [Ok 1, Fail (EOTHER 5)])
        = Some (init_state [Ok 1, Fail (EOTHER 5)])
      \<and> writeChunk (script_os :: sysret list os) 4 ((grow (-1) ^^ 0) 1)
          (init_state [Ok 1, Fail (EOTHER 5)])
       = Exit EXIT_FAILURE
           (eprint (Err_line ''write'' (EOTHER 5))
              ((init_state [])\<lparr>errno := EOTHER 5,
                  trace := [(Malloc 1, Ok 1), (Write 4 1, Fail (EOTHER 5))]\<rparr>))"
    using e1 by simp
  have h2': "int32 (TOTAL (init_state [Ok 1, Fail (EOTHER 5)]))"
    by (simp add: init_state_def int32_def)
  note e2 = loop_mode_monotonic_running_total [OF h1 h2', THEN conjunct2, THEN conjunct1,
       rule_format, OF e0, of 0]
  from h1 h2 h3 t1 g1 g3 g4 g5 g6 e1 e2
  show ?thesis by (intro conjI)
qed

section \<open>Loop mode from size 1 without increment (C3)\<close>







section \<open>A probe with initial chunk size 0 (C7)\<close>

lemma writeChunk_pipe_zero: "\<exists>s1. writeChunk (pipe_os cap) fd 0 s = Return 0 s1"
  by (simp add: writeChunk_def sysc_def writeChunk_again.simps wrap32_id Let_def)

lemma zero_loop_no_result:
  assumes run: "writeLoop_while os fd inc count i s = Some res"
  shows "\<not> (os = pipe_os cap \<and> inc = -1 \<and> count = 0)"
proof (rule writeLoop_while.raw_induct
    [where P = "\<lambda>os fd inc count i s res. \<not> (os = pipe_os cap \<and> inc = -1 \<and> count = 0)",
     OF _ run], goal_cases)
  case (1 loop os fd inc count i s res)
  note IH = "1"(1) and body = "1"(2)
  show ?case
  proof
    assume a: "os = pipe_os cap \<and> inc = -1 \<and> count = 0"
    from writeChunk_pipe_zero [of cap fd s] obtain s1 where
      "writeChunk (pipe_os cap) fd 0 s = Return 0 s1" ..
    with body a have
      "loop (pipe_os cap) fd (-1) (grow (-1) 0) (wrap32 (i + 1)) s1 = Some res"
      by simp
    from IH [OF this] show False
      by (simp add: grow_def wrap32_def)
  qed
qed

text \<open>
  In loop mode without an increment, on a pipe, a probe with initial chunk size 0 never
  leaves the loop of \<open>writeLoop\<close>: the write of no bytes returns 0, which is the size
  asked for, and twice 0 is 0 again.
\<close>

theorem zero_size_loop_never_returns:
  "writeLoop_while (pipe_os cap) fd (-1) 0 i s = None"
proof (cases "writeLoop_while (pipe_os cap) fd (-1) 0 i s")
  case None
  then show ?thesis .
next
  case (Some res)
  from zero_loop_no_result [OF this, of cap] show ?thesis by simp
qed

text \<open>
  Claim C7 says that a probe run with initial chunk size 0 still ends and reports a total
  that is not negative. The run of the whole program with the arguments \<open>0\<close> alone
  (a pipe, loop mode, doubling) on Linux has no result: it never ends, and prints no
  total.
\<close>

theorem zero_size_probe_never_returns:
  "main linux_pf (pipe_os 65536) [] [''0''] (init_state 0) = None"
  apply (simp add: main_def parseArgs_def parseArgs_type_def parseArgs_chunks_def init_state_def strncmp_eq_def strcasecmp_eq_def tolower_def linux_pf_def inputNumber_def strtol_def strtol_value_def isspace_def digit_val_def wrap32_def)
  apply (simp add: sysc_def doPipe_def and_then_def and_then_opt_def setPipeSize_def reportTest_def print_def print_unless_quiet_def checked_def)
  apply (simp add: writeData_def sysc_def printFdQueueSize_def print_def writeLoop_def zero_size_loop_never_returns)
  done

section \<open>The three outcomes of a failed write (C1)\<close>




section \<open>Chunk mode (C2)\<close>










text \<open>
  When the second size is not given (or is 0), the code starts its \<open>for\<close> loop at 1:
  with the default count of 1 additional chunk, \<open>-c 100\<close> writes the first chunk only,
  while \<open>reportTest\<close> announces one more chunk of size 100.
\<close>

lemma chunk_mode_second_size_not_given:
  "calls_since ((init_state 0)\<lparr>MODE := CHUNK, CHUNK1 := 100\<rparr>)
     (final (writeData_chunk (pipe_os 4096) 4 ((init_state 0)\<lparr>MODE := CHUNK, CHUNK1 := 100\<rparr>)))
     = [(Malloc 100, Ok 1), (Write 4 100, Ok 100)]
   \<and> stdout_lines (printed (reportTest [''pipe''] ((init_state (0::int))\<lparr>MODE := CHUNK, CHUNK1 := 100\<rparr>)))
     = [Testing, Test_name [''pipe''], Buffer_size_mode CHUNK, First_chunk 100, Then_more 1 100,
        Blank]"
  by (simp add: writeData_chunk_def writeData_for.simps writeChunk_def sysc_def init_state_def
        writeChunk_again.simps wrap32_def print_def eprint_def calls_since_def reportTest_def)

section \<open>A pipe size request on a platform without the control call (C8)\<close>

lemma stdout_lines_append: "stdout_lines (xs @ ys) = stdout_lines xs @ stdout_lines ys"
  by (induction xs rule: stdout_lines.induct) simp_all

text \<open>
  Claim C8. On a platform whose headers do not define \<open>F_SETPIPE_SZ\<close>: when a pipe size
  was requested (\<open>-P\<close>, so \<open>SET_PIPEBUF\<close> is not \<open>-1\<close>), \<open>setPipeSize\<close> prints its
  message on the standard error and exits with \<open>EXIT_FAILURE\<close>, which is not 0, and
  \<open>doPipe\<close>, which calls it right after \<open>pipe\<close> and before any report, ends the process
  with that status without a line on the standard output; when no size was requested,
  \<open>setPipeSize\<close> returns with the state as it was: no call, no message.
\<close>

theorem pipe_size_request_unsupported:
  assumes "\<not> def_F_SETPIPE_SZ pf"
  shows "(SET_PIPEBUF s \<noteq> -1 \<longrightarrow>
            setPipeSize pf os fd s = Exit EXIT_FAILURE (eprint Sorry_pipe_size s)
          \<and> EXIT_FAILURE \<noteq> 0
          \<and> (\<exists>s'. doPipe pf os s = Some (Exit EXIT_FAILURE s')
                \<and> stdout_lines (printed s') = stdout_lines (printed s)))
       \<and> (SET_PIPEBUF s = -1 \<longrightarrow> setPipeSize pf os fd s = Return () s)"
proof -
  obtain r s1 where p: "sysc os Pipe s = (r, s1)"
    by (cases "sysc os Pipe s")
  note f = sysc_result [OF p]
  have "SET_PIPEBUF s1 = SET_PIPEBUF s"
    using p by (auto simp: sysc_def Let_def split: prod.splits sysret.splits)
  with assms f p
  have "SET_PIPEBUF s \<noteq> -1 \<longrightarrow>
          (\<exists>s'. doPipe pf os s = Some (Exit EXIT_FAILURE s')
                \<and> stdout_lines (printed s') = stdout_lines (printed s))"
    by (cases r)
       (auto simp: doPipe_def and_then_def setPipeSize_def err_def eprint_def stdout_lines_append)
  with assms show ?thesis
    by (simp add: setPipeSize_def EXIT_FAILURE_def)
qed

text \<open>
  \<open>ipcbuf -P 4096\<close> on NetBSD exits with status 1 and the one message; \<open>ipcbuf\<close> without
  arguments runs to its end there.
\<close>

theorem pipe_size_request_unsupported_witness:
  "\<not> def_F_SETPIPE_SZ netbsd_pf
   \<and> SET_PIPEBUF ((init_state (0::int))\<lparr>SET_PIPEBUF := 4096\<rparr>) \<noteq> -1
   \<and> setPipeSize netbsd_pf (pipe_os 16384) 4 ((init_state 0)\<lparr>SET_PIPEBUF := 4096\<rparr>)
       = Exit EXIT_FAILURE (eprint Sorry_pipe_size ((init_state 0)\<lparr>SET_PIPEBUF := 4096\<rparr>))
   \<and> main netbsd_pf (pipe_os 16384) [(CHR ''P'', ''4096'')] [] (init_state 0)
       = Some (1, (init_state 0)\<lparr>SET_PIPEBUF := 4096,
            trace := [(Atexit, Ok 0), (Pipe, Ok2 3 4), (Unlink ''socket'', Ok 0),
                      (Unlink ''fifo'', Ok 0)],
            printed := [(Stderr, Sorry_pipe_size)]\<rparr>)
   \<and> map_option fst (main netbsd_pf (pipe_os 12) [] [] (init_state 0)) = Some 0"
proof -
  have h: "\<not> def_F_SETPIPE_SZ netbsd_pf"
    by (simp add: netbsd_pf_def)
  have r: "SET_PIPEBUF ((init_state (0::int))\<lparr>SET_PIPEBUF := 4096\<rparr>) \<noteq> -1"
    by simp
  have m: "main netbsd_pf (pipe_os 16384) [(CHR ''P'', ''4096'')] [] (init_state 0)
       = Some (1, (init_state 0)\<lparr>SET_PIPEBUF := 4096,
            trace := [(Atexit, Ok 0), (Pipe, Ok2 3 4), (Unlink ''socket'', Ok 0),
                      (Unlink ''fifo'', Ok 0)],
            printed := [(Stderr, Sorry_pipe_size)]\<rparr>)"
    by (simp add: main_def parseArgs_def parseArgs_type_def parseArgs_chunks_def init_state_def
          strncmp_eq_def strcasecmp_eq_def tolower_def netbsd_pf_def inputNumber_def strtol_def
          strtol_value_def isspace_def digit_val_def wrap32_def sysc_def doPipe_def and_then_def
          setPipeSize_def eprint_def cleanup_def EXIT_FAILURE_def)
  have n: "map_option fst (main netbsd_pf (pipe_os 12) [] [] (init_state 0)) = Some 0"
    by (simp add: main_def parseArgs_def parseArgs_type_def parseArgs_chunks_def init_state_def
          strncmp_eq_def strcasecmp_eq_def tolower_def netbsd_pf_def sysc_def doPipe_def
          and_then_def and_then_opt_def setPipeSize_def reportTest_def print_def
          print_unless_quiet_def checked_def writeData_def printFdQueueSize_def writeLoop_def
          writeLoop_while.simps writeChunk_def writeChunk_again.simps wrap32_def eprint_def
          grow_def writeData_report_def readData_def Let_def readData_while.simps cleanup_def)
  from pipe_size_request_unsupported
    [OF h, of "(init_state 0)\<lparr>SET_PIPEBUF := 4096\<rparr>" "pipe_os 16384" 4] r
  have "setPipeSize netbsd_pf (pipe_os 16384) 4 ((init_state 0)\<lparr>SET_PIPEBUF := 4096\<rparr>)
       = Exit EXIT_FAILURE (eprint Sorry_pipe_size ((init_state 0)\<lparr>SET_PIPEBUF := 4096\<rparr>))"
    by blast
  with h r m n show ?thesis by (intro conjI)
qed

section \<open>Configuration errors (C9)\<close>

text \<open>
  The argument parser touches the global variables and the two output streams only:
  whatever it returns, no call to the operating system has been made.
\<close>

lemma no_call_refl [simp]: "no_call s s"
  by (simp add: no_call_def)

lemma no_call_trans: "no_call s t \<Longrightarrow> no_call t u \<Longrightarrow> no_call s u"
  by (simp add: no_call_def)

lemma inputNumber_cases:
  obtains (exit) s' where "inputNumber pf inp threshold s = Exit EXIT_FAILURE s'" "no_call s s'"
  | (return) n s' where "inputNumber pf inp threshold s = Return n s'" "no_call s s'"
  by (cases "inputNumber pf inp threshold s")
     (auto simp: inputNumber_def strtol_def Let_def no_call_def eprint_def split: if_splits)

lemma inputNumber_then:
  assumes "no_call s0 s"
      and "\<And>n t. no_call s0 t \<Longrightarrow> parsed_without_call s0 opts (k n t)"
  shows "parsed_without_call s0 opts
           (case inputNumber pf inp threshold s of
              Exit st s1 \<Rightarrow> Exit st s1
            | Return n s1 \<Rightarrow> k n s1)"
proof (cases rule: inputNumber_cases [of pf inp threshold s])
  case (exit s')
  with assms(1) show ?thesis
    by (auto simp: parsed_without_call_def intro: no_call_trans)
next
  case (return n s')
  with assms show ?thesis
    by (auto intro: no_call_trans)
qed

lemma parseArgs_getopt_no_call:
  "no_call s0 s \<Longrightarrow> parsed_without_call s0 opts (parseArgs_getopt pf opts sflag type s)"
proof (induction opts arbitrary: sflag type s)
  case Nil
  then show ?case by (simp add: parsed_without_call_def)
next
  case (Cons opt opts)
  obtain ch optarg where o: "opt = (ch, optarg)" by (cases opt)
  have IH: "parsed_without_call s0 (opt # opts) (parseArgs_getopt pf opts sf ty t)"
    if "no_call s0 t" for t sf ty
    using Cons.IH [OF that, of sf ty]
    by (auto simp: parsed_without_call_def split: result.splits)
  have upd: "no_call s0 (t\<lparr>SET_PIPEBUF := n\<rparr>)" "no_call s0 (t\<lparr>SET_RCVBUF := n\<rparr>)"
     "no_call s0 (t\<lparr>SET_SNDBUF := n\<rparr>)" "no_call s0 (t\<lparr>NUM_CHUNKS := n\<rparr>)"
     "no_call s0 (t\<lparr>MODE := m\<rparr>)" "no_call s0 (t\<lparr>QUIET := q\<rparr>)"
     "no_call s0 (t\<lparr>SET_SOCKTYPE := str\<rparr>)" "no_call s0 (print l t)"
    if "no_call s0 t" for t :: "'a pstate" and n m q str l
    using that by (simp_all add: no_call_def print_def)
  have ex: "parsed_without_call s0 (opt # opts) (Exit EXIT_FAILURE (print l s) :: (bool \<times> string option, 'a) result)"
     "ch = CHR ''h'' \<Longrightarrow> parsed_without_call s0 (opt # opts) (Exit EXIT_SUCCESS (print l s) :: (bool \<times> string option, 'a) result)" for l
    using upd(8) [OF Cons.prems] by (simp_all add: parsed_without_call_def o)
  show ?case
    unfolding o parseArgs_getopt.simps
    using Cons.prems
    by (auto simp: o [symmetric] intro!: inputNumber_then IH upd ex)
qed


lemma parseArgs_chunks_no_call:
  assumes "no_call s0 s"
  shows "parsed_without_call s0 opts (parseArgs_chunks pf args s)"
proof -
  have one: "parsed_without_call s0 opts
               (case inputNumber pf inp 0 t of
                  Exit st s2 \<Rightarrow> Exit st s2
                | Return n s2 \<Rightarrow> Return () (s2\<lparr>CHUNK2 := n\<rparr>))"
    if "no_call s0 t" for t inp
    using that by (intro inputNumber_then) (simp_all add: parsed_without_call_def no_call_def)
  have ret: "parsed_without_call s0 opts (Return () t :: (unit, 'a) result)" if "no_call s0 t" for t
    using that by (simp add: parsed_without_call_def)
  show ?thesis
  proof (cases "length args > 0")
    case False
    with assms show ?thesis
      by (simp add: parseArgs_chunks_def ret)
  next
    case True
    show ?thesis
    proof (cases rule: inputNumber_cases [of pf "args ! 0" 0 s])
      case (exit s')
      with assms True show ?thesis
        by (auto simp: parseArgs_chunks_def parsed_without_call_def intro: no_call_trans)
    next
      case (return n s')
      from assms return(2) have "no_call s0 (s'\<lparr>CHUNK1 := n\<rparr>)"
        by (simp add: no_call_def)
      with True return(1) show ?thesis
        by (simp add: parseArgs_chunks_def ret one)
    qed
  qed
qed

lemma parseArgs_no_call:
  "parsed_without_call s opts (parseArgs pf opts args s)"
proof (cases "parseArgs_getopt pf opts False None s")
  case (Exit st s1)
  with parseArgs_getopt_no_call [OF no_call_refl, of s opts pf False None] show ?thesis
    by (simp add: parseArgs_def parsed_without_call_def)
next
  case (Return v s1)
  obtain sflag type where v: "v = (sflag, type)" by (cases v)
  from Return parseArgs_getopt_no_call [OF no_call_refl, of s opts pf False None]
  have n1: "no_call s s1"
    by (simp add: parsed_without_call_def)
  have n2: "no_call s (parseArgs_type type s1)"
    using n1 by (simp add: parseArgs_type_def no_call_def split: option.splits)
  have ex: "parsed_without_call s opts (Exit EXIT_FAILURE (eprint l t) :: (unit, 'a) result)"
     "parsed_without_call s opts (Exit EXIT_FAILURE (print l t) :: (unit, 'a) result)"
    if "no_call s t" for l t
    using that by (simp_all add: parsed_without_call_def no_call_def eprint_def print_def)
  define s2 where "s2 = parseArgs_type type s1"
  define s3 where "s3 = (if strncmp_eq (SET_SOCKTYPE s2) ''inet-''
                           then s2\<lparr>SET_SOCKDOMAIN := ''PF_INET'', SOCK_DOMAIN := PF_INET,
                                   SET_SOCKTYPE := drop 5 (SET_SOCKTYPE s2)\<rparr>
                           else if strncmp_eq (SET_SOCKTYPE s2) ''inet6-''
                           then s2\<lparr>SET_SOCKDOMAIN := ''PF_INET6'', SOCK_DOMAIN := PF_INET6,
                                   SET_SOCKTYPE := drop 6 (SET_SOCKTYPE s2)\<rparr>
                           else s2)"
  have n2: "no_call s s2"
    using n1 by (simp add: s2_def parseArgs_type_def no_call_def split: option.splits)
  have n3: "no_call s s3"
    using n2 by (simp add: s3_def no_call_def)
  have n4: "no_call s (s3\<lparr>SOCK_TYPE := SOCK_STREAM\<rparr>)"
    using n3 by (simp add: no_call_def)
  have eq: "parseArgs pf opts args s =
     (if length args > 2 then Exit EXIT_FAILURE (print Usage_text s1)
      else if IPC_TYPE s2 \<noteq> IPC_PIPE \<and> SET_PIPEBUF s2 \<noteq> -1
               then Exit EXIT_FAILURE (eprint Only_with_pipe s2)
               else if sflag \<and> IPC_TYPE s2 \<noteq> IPC_SOCKET \<and> IPC_TYPE s2 \<noteq> IPC_SOCKETPAIR
               then Exit EXIT_FAILURE (eprint Only_with_socket s2)
               else if strncmp_eq (SET_SOCKTYPE s2) ''inet'' \<and> IPC_TYPE s2 \<noteq> IPC_SOCKET
               then Exit EXIT_FAILURE (eprint Inet_only_with_socket s2)
               else if strcasecmp_eq (SET_SOCKTYPE s3) ''stream''
                    then parseArgs_chunks pf args (s3\<lparr>SOCK_TYPE := SOCK_STREAM\<rparr>)
                    else if \<not> strcasecmp_eq (SET_SOCKTYPE s3) ''dgram''
                    then Exit EXIT_FAILURE (eprint Invalid_socket_type s3)
                    else parseArgs_chunks pf args s3)"
    unfolding parseArgs_def Return v s2_def s3_def
    by (simp only: Let_def result.case prod.case)
  show ?thesis
    unfolding eq
    by (simp only: ex [OF n1] ex [OF n2] ex [OF n3] parseArgs_chunks_no_call [OF n3]
          parseArgs_chunks_no_call [OF n4] if_split [where P = "parsed_without_call s opts"]
          simp_thms)
qed

lemma converted_strtol: "wrap32 (fst (strtol pf inp s)) = converted pf inp"
  by (simp add: strtol_def converted_def Let_def)

lemma strtol_fields:
  "IPC_TYPE (snd (strtol pf inp s)) = IPC_TYPE s"
  "SET_PIPEBUF (snd (strtol pf inp s)) = SET_PIPEBUF s"
  "SET_SOCKTYPE (snd (strtol pf inp s)) = SET_SOCKTYPE s"
  by (simp_all add: strtol_def Let_def)

lemma inputNumber_converted:
  "inputNumber pf inp th s =
     (if converted pf inp < th
      then Exit EXIT_FAILURE (eprint (Please_number th) (snd (strtol pf inp s)))
      else Return (converted pf inp) (snd (strtol pf inp s)))"
proof (cases "strtol pf inp s")
  case (Pair l s1)
  with converted_strtol [of pf inp s] show ?thesis
    by (simp add: inputNumber_def)
qed

lemma last_arg_Nil: "last_arg ch [] = None"
  by (simp add: last_arg_def)

lemma last_arg_Cons:
  "last_arg ch ((c, a) # rest) =
     (case last_arg ch rest of Some x \<Rightarrow> Some x | None \<Rightarrow> if c = ch then Some a else None)"
  by (simp add: last_arg_def map_add_def split: option.splits)

lemma getopt_step:
  "(ch = CHR ''h'' \<or> rejected_option pf (ch, a) \<longrightarrow>
      (\<exists>st s'. parseArgs_getopt pf ((ch, a) # rest) sflag type s = Exit st s'))
   \<and> (\<not> (ch = CHR ''h'' \<or> rejected_option pf (ch, a)) \<longrightarrow>
      (\<exists>s1. parseArgs_getopt pf ((ch, a) # rest) sflag type s =
              parseArgs_getopt pf rest (sflag \<or> ch = CHR ''s'')
                (if ch = CHR ''t'' then Some a else type) s1
            \<and> IPC_TYPE s1 = IPC_TYPE s
            \<and> (SET_PIPEBUF s1 \<noteq> -1 \<longleftrightarrow> ch = CHR ''P'' \<or> SET_PIPEBUF s \<noteq> -1)
            \<and> SET_SOCKTYPE s1 = (if ch = CHR ''s'' then a else SET_SOCKTYPE s)))"
proof -
  consider (P) "ch = CHR ''P''" | (R) "ch = CHR ''R''" | (S) "ch = CHR ''S''"
    | (c) "ch = CHR ''c''" | (h) "ch = CHR ''h''" | (l) "ch = CHR ''l''"
    | (n) "ch = CHR ''n''" | (q) "ch = CHR ''q''" | (s) "ch = CHR ''s''"
    | (t) "ch = CHR ''t''" | (other) "ch \<notin> set ''PRSchlnqst''"
    by auto
  then show ?thesis
  proof cases
    case P
    then show ?thesis
      by (auto simp: rejected_option_def inputNumber_converted strtol_fields
            intro!: exI [of _ "snd (strtol pf a s)\<lparr>SET_PIPEBUF := converted pf a\<rparr>"])
  next
    case R
    then show ?thesis
      by (auto simp: rejected_option_def inputNumber_converted strtol_fields
            intro!: exI [of _ "snd (strtol pf a s)\<lparr>SET_RCVBUF := converted pf a\<rparr>"])
  next
    case S
    then show ?thesis
      by (auto simp: rejected_option_def inputNumber_converted strtol_fields
            intro!: exI [of _ "snd (strtol pf a s)\<lparr>SET_SNDBUF := converted pf a\<rparr>"])
  next
    case c
    then show ?thesis
      by (auto simp: rejected_option_def inputNumber_converted strtol_fields
            intro!: exI [of _ "s\<lparr>MODE := CHUNK\<rparr>"])
  next
    case h
    then show ?thesis
      by (simp add: rejected_option_def)
  next
    case l
    then show ?thesis
      by (auto simp: rejected_option_def inputNumber_converted strtol_fields
            intro!: exI [of _ "s\<lparr>MODE := LOOP\<rparr>"])
  next
    case n
    then show ?thesis
      by (auto simp: rejected_option_def inputNumber_converted strtol_fields
            intro!: exI [of _ "snd (strtol pf a s)\<lparr>NUM_CHUNKS := converted pf a\<rparr>"])
  next
    case q
    then show ?thesis
      by (auto simp: rejected_option_def inputNumber_converted strtol_fields
            intro!: exI [of _ "s\<lparr>QUIET := True\<rparr>"])
  next
    case s
    then show ?thesis
      by (auto simp: rejected_option_def inputNumber_converted strtol_fields
            intro!: exI [of _ "s\<lparr>SET_SOCKTYPE := a\<rparr>"])
  next
    case t
    then show ?thesis
      by (auto simp: rejected_option_def inputNumber_converted strtol_fields
            intro!: exI [of _ "s"])
  next
    case other
    then show ?thesis
      by (simp add: rejected_option_def)
  qed
qed

lemma getopt_exits:
  "list_ex (ends_options pf) opts \<Longrightarrow>
     \<exists>st s'. parseArgs_getopt pf opts sflag type s = Exit st s'"
proof (induction opts arbitrary: sflag type s)
  case Nil
  then show ?case by simp
next
  case (Cons opt opts)
  obtain ch a where o: "opt = (ch, a)" by (cases opt)
  note step = getopt_step [of ch pf a opts sflag type s]
  show ?case
  proof (cases "ch = CHR ''h'' \<or> rejected_option pf (ch, a)")
    case True
    with step show ?thesis
      unfolding o by blast
  next
    case False
    with step obtain s1 where
      s1: "parseArgs_getopt pf ((ch, a) # opts) sflag type s =
              parseArgs_getopt pf opts (sflag \<or> ch = CHR ''s'')
                (if ch = CHR ''t'' then Some a else type) s1"
      by blast
    from False Cons.prems have "list_ex (ends_options pf) opts"
      by (simp add: o list_ex_iff ends_options_def)
    from Cons.IH [OF this] show ?thesis
      unfolding o s1 .
  qed
qed

lemma getopt_returns:
  "\<not> list_ex (ends_options pf) opts \<Longrightarrow>
     \<exists>s'. parseArgs_getopt pf opts sflag type s =
            Return (sflag \<or> option_given (CHR ''s'') opts,
                    case last_arg (CHR ''t'') opts of None \<Rightarrow> type | Some x \<Rightarrow> Some x) s'
          \<and> IPC_TYPE s' = IPC_TYPE s
          \<and> (SET_PIPEBUF s' \<noteq> -1 \<longleftrightarrow> option_given (CHR ''P'') opts \<or> SET_PIPEBUF s \<noteq> -1)
          \<and> SET_SOCKTYPE s' =
              (case last_arg (CHR ''s'') opts of None \<Rightarrow> SET_SOCKTYPE s | Some x \<Rightarrow> x)"
proof (induction opts arbitrary: sflag type s)
  case Nil
  then show ?case by (simp add: option_given_def last_arg_Nil)
next
  case (Cons opt opts)
  obtain ch a where o: "opt = (ch, a)" by (cases opt)
  from Cons.prems have no: "\<not> (ch = CHR ''h'' \<or> rejected_option pf (ch, a))"
    and rest: "\<not> list_ex (ends_options pf) opts"
    by (simp_all add: o list_ex_iff ends_options_def)
  from getopt_step [of ch pf a opts sflag type s] no obtain s1 where
    s1: "parseArgs_getopt pf ((ch, a) # opts) sflag type s =
              parseArgs_getopt pf opts (sflag \<or> ch = CHR ''s'')
                (if ch = CHR ''t'' then Some a else type) s1"
      "IPC_TYPE s1 = IPC_TYPE s"
      "SET_PIPEBUF s1 \<noteq> -1 \<longleftrightarrow> ch = CHR ''P'' \<or> SET_PIPEBUF s \<noteq> -1"
      "SET_SOCKTYPE s1 = (if ch = CHR ''s'' then a else SET_SOCKTYPE s)"
    by blast
  from Cons.IH [OF rest, of "sflag \<or> ch = CHR ''s''" "if ch = CHR ''t'' then Some a else type" s1]
  obtain s' where
    s': "parseArgs_getopt pf opts (sflag \<or> ch = CHR ''s'')
                (if ch = CHR ''t'' then Some a else type) s1 =
            Return ((sflag \<or> ch = CHR ''s'') \<or> option_given (CHR ''s'') opts,
                    case last_arg (CHR ''t'') opts of
                      None \<Rightarrow> (if ch = CHR ''t'' then Some a else type) | Some x \<Rightarrow> Some x) s'"
      "IPC_TYPE s' = IPC_TYPE s1"
      "SET_PIPEBUF s' \<noteq> -1 \<longleftrightarrow> option_given (CHR ''P'') opts \<or> SET_PIPEBUF s1 \<noteq> -1"
      "SET_SOCKTYPE s' =
              (case last_arg (CHR ''s'') opts of None \<Rightarrow> SET_SOCKTYPE s1 | Some x \<Rightarrow> x)"
    by blast
  have a1: "((sflag \<or> ch = CHR ''s'') \<or> option_given (CHR ''s'') opts)
        = (sflag \<or> option_given (CHR ''s'') ((ch, a) # opts))"
    by (auto simp: option_given_def last_arg_Cons split: option.splits)
  have a2: "(case last_arg (CHR ''t'') opts of
                      None \<Rightarrow> (if ch = CHR ''t'' then Some a else type) | Some x \<Rightarrow> Some x)
        = (case last_arg (CHR ''t'') ((ch, a) # opts) of None \<Rightarrow> type | Some x \<Rightarrow> Some x)"
    by (simp add: last_arg_Cons split: option.splits)
  have a3: "(option_given (CHR ''P'') opts \<or> SET_PIPEBUF s1 \<noteq> -1)
        = (option_given (CHR ''P'') ((ch, a) # opts) \<or> SET_PIPEBUF s \<noteq> -1)"
    using s1(3) by (auto simp: option_given_def last_arg_Cons split: option.splits)
  have a4: "(case last_arg (CHR ''s'') opts of None \<Rightarrow> SET_SOCKTYPE s1 | Some x \<Rightarrow> x)
        = (case last_arg (CHR ''s'') ((ch, a) # opts) of None \<Rightarrow> SET_SOCKTYPE s | Some x \<Rightarrow> x)"
    using s1(4) by (simp add: last_arg_Cons split: option.splits)
  show ?case
    unfolding o s1(1) s'(1) a1 a2
    using s'(2,3,4) s1(2) a3 a4 by (intro exI [of _ s']) simp
qed

lemma parseArgs_chunks_exits:
  "(\<exists>st s'. parseArgs_chunks pf args s = Exit st s')
     \<longleftrightarrow> list_ex (\<lambda>a. converted pf a < 0) (take 2 args)"
proof -
  consider (none) "args = []" | (one) a where "args = [a]"
    | (more) a b rest where "args = a # b # rest"
    by (cases args rule: list.exhaust [case_names Nil Cons]; cases "tl args"; auto)
  then show ?thesis
  proof cases
    case none
    then show ?thesis by (simp add: parseArgs_chunks_def)
  next
    case one
    then show ?thesis by (simp add: parseArgs_chunks_def inputNumber_converted)
  next
    case more
    then show ?thesis by (simp add: parseArgs_chunks_def inputNumber_converted)
  qed
qed

lemma parseArgs_exits_iff:
  "(\<exists>st s'. parseArgs pf opts args (init_state k) = Exit st s')
     \<longleftrightarrow> (CHR ''h'' \<in> fst ` set opts \<or> configuration_error pf opts args)"
proof (cases "list_ex (ends_options pf) opts")
  case True
  from getopt_exits [OF True, of False None "init_state k"]
  have "\<exists>st s'. parseArgs pf opts args (init_state k) = Exit st s'"
    by (auto simp: parseArgs_def)
  moreover from True have "CHR ''h'' \<in> fst ` set opts \<or> list_ex (rejected_option pf) opts"
    by (force simp: list_ex_iff ends_options_def)
  ultimately show ?thesis
    by (auto simp: configuration_error_def)
next
  case False
  from getopt_returns [OF False, of False None "init_state k"] obtain s1 where
    r: "parseArgs_getopt pf opts False None (init_state k) =
          Return (option_given (CHR ''s'') opts, last_arg (CHR ''t'') opts) s1"
       "IPC_TYPE s1 = IPC_PIPE"
       "SET_PIPEBUF s1 \<noteq> -1 \<longleftrightarrow> option_given (CHR ''P'') opts"
       "SET_SOCKTYPE s1 = chosen_socktype opts"
    by (auto simp: init_state_def chosen_socktype_def split: option.splits)
  from False have nh: "CHR ''h'' \<notin> fst ` set opts" and nr: "\<not> list_ex (rejected_option pf) opts"
    by (auto simp: list_ex_iff ends_options_def)
  define s2 where "s2 = parseArgs_type (last_arg (CHR ''t'') opts) s1"
  define s3 where "s3 = (if strncmp_eq (SET_SOCKTYPE s2) ''inet-''
                           then s2\<lparr>SET_SOCKDOMAIN := ''PF_INET'', SOCK_DOMAIN := PF_INET,
                                   SET_SOCKTYPE := drop 5 (SET_SOCKTYPE s2)\<rparr>
                           else if strncmp_eq (SET_SOCKTYPE s2) ''inet6-''
                           then s2\<lparr>SET_SOCKDOMAIN := ''PF_INET6'', SOCK_DOMAIN := PF_INET6,
                                   SET_SOCKTYPE := drop 6 (SET_SOCKTYPE s2)\<rparr>
                           else s2)"
  have v: "IPC_TYPE s2 = chosen_variant opts"
    using r(2) by (simp add: s2_def parseArgs_type_def chosen_variant_def split: option.splits)
  have p: "SET_PIPEBUF s2 \<noteq> -1 \<longleftrightarrow> option_given (CHR ''P'') opts"
    using r(3) by (simp add: s2_def parseArgs_type_def split: option.splits)
  have k2: "SET_SOCKTYPE s2 = chosen_socktype opts"
    using r(4) by (simp add: s2_def parseArgs_type_def split: option.splits)
  have k3: "SET_SOCKTYPE s3 = socktype_name (chosen_socktype opts)"
    by (simp add: s3_def k2 socktype_name_def)
  have eq: "parseArgs pf opts args (init_state k) =
     (if length args > 2 then Exit EXIT_FAILURE (print Usage_text s1)
      else if IPC_TYPE s2 \<noteq> IPC_PIPE \<and> SET_PIPEBUF s2 \<noteq> -1
               then Exit EXIT_FAILURE (eprint Only_with_pipe s2)
               else if option_given (CHR ''s'') opts
                       \<and> IPC_TYPE s2 \<noteq> IPC_SOCKET \<and> IPC_TYPE s2 \<noteq> IPC_SOCKETPAIR
               then Exit EXIT_FAILURE (eprint Only_with_socket s2)
               else if strncmp_eq (SET_SOCKTYPE s2) ''inet'' \<and> IPC_TYPE s2 \<noteq> IPC_SOCKET
               then Exit EXIT_FAILURE (eprint Inet_only_with_socket s2)
               else if strcasecmp_eq (SET_SOCKTYPE s3) ''stream''
                    then parseArgs_chunks pf args (s3\<lparr>SOCK_TYPE := SOCK_STREAM\<rparr>)
                    else if \<not> strcasecmp_eq (SET_SOCKTYPE s3) ''dgram''
                    then Exit EXIT_FAILURE (eprint Invalid_socket_type s3)
                    else parseArgs_chunks pf args s3)"
    unfolding parseArgs_def r(1) s2_def s3_def
    by (simp only: Let_def result.case prod.case)
  have "(\<exists>st s'. parseArgs pf opts args (init_state k) = Exit st s')
      \<longleftrightarrow> (2 < length args
      \<or> (option_given (CHR ''P'') opts \<and> chosen_variant opts \<noteq> IPC_PIPE)
      \<or> (option_given (CHR ''s'') opts
           \<and> chosen_variant opts \<noteq> IPC_SOCKET \<and> chosen_variant opts \<noteq> IPC_SOCKETPAIR)
      \<or> (strncmp_eq (chosen_socktype opts) ''inet'' \<and> chosen_variant opts \<noteq> IPC_SOCKET)
      \<or> (\<not> strcasecmp_eq (socktype_name (chosen_socktype opts)) ''stream''
           \<and> \<not> strcasecmp_eq (socktype_name (chosen_socktype opts)) ''dgram'')
      \<or> list_ex (\<lambda>a. converted pf a < 0) (take 2 args))"
    unfolding eq v p k2 k3
    using parseArgs_chunks_exits [of pf args s3]
      parseArgs_chunks_exits [of pf args "s3\<lparr>SOCK_TYPE := SOCK_STREAM\<rparr>"]
    by (cases "chosen_variant opts") (auto split: if_splits)
  with nh nr show ?thesis
    by (simp add: configuration_error_def)
qed

lemma getopt_step_status:
  "(ch = CHR ''h'' \<longrightarrow>
      (\<exists>s'. parseArgs_getopt pf ((ch, a) # rest) sflag type s = Exit EXIT_SUCCESS s'))
   \<and> (ch \<noteq> CHR ''h'' \<and> rejected_option pf (ch, a) \<longrightarrow>
      (\<exists>s'. parseArgs_getopt pf ((ch, a) # rest) sflag type s = Exit EXIT_FAILURE s'))"
proof -
  consider (P) "ch = CHR ''P''" | (R) "ch = CHR ''R''" | (S) "ch = CHR ''S''"
    | (c) "ch = CHR ''c''" | (h) "ch = CHR ''h''" | (l) "ch = CHR ''l''"
    | (n) "ch = CHR ''n''" | (q) "ch = CHR ''q''" | (s) "ch = CHR ''s''"
    | (t) "ch = CHR ''t''" | (other) "ch \<notin> set ''PRSchlnqst''"
    by auto
  then show ?thesis
    by cases (simp_all add: rejected_option_def inputNumber_converted)
qed

lemma getopt_exit_status:
  "list_ex (ends_options pf) opts \<Longrightarrow>
     \<exists>s'. parseArgs_getopt pf opts sflag type s =
            Exit (if help_first pf opts then EXIT_SUCCESS else EXIT_FAILURE) s'"
proof (induction opts arbitrary: sflag type s)
  case Nil
  then show ?case by simp
next
  case (Cons opt opts)
  obtain ch a where o: "opt = (ch, a)" by (cases opt)
  note st = getopt_step_status [of ch pf a opts sflag type s]
  show ?case
  proof (cases "ch = CHR ''h'' \<or> rejected_option pf (ch, a)")
    case True
    then have en: "ends_options pf (ch, a)"
      by (simp add: ends_options_def)
    then have hf: "help_first pf ((ch, a) # opts) = (ch = CHR ''h'')"
      by (simp add: help_first_def)
    show ?thesis
    proof (cases "ch = CHR ''h''")
      case True
      with st hf show ?thesis
        unfolding o by simp
    next
      case False
      with \<open>ch = CHR ''h'' \<or> rejected_option pf (ch, a)\<close>
      have "ch \<noteq> CHR ''h'' \<and> rejected_option pf (ch, a)"
        by simp
      with st [THEN conjunct2] hf False show ?thesis
        unfolding o by simp
    qed
  next
    case False
    with getopt_step [of ch pf a opts sflag type s] obtain s1 where
      s1: "parseArgs_getopt pf ((ch, a) # opts) sflag type s =
              parseArgs_getopt pf opts (sflag \<or> ch = CHR ''s'')
                (if ch = CHR ''t'' then Some a else type) s1"
      by blast
    from False Cons.prems have "list_ex (ends_options pf) opts"
      by (simp add: o list_ex_iff ends_options_def)
    from Cons.IH [OF this, of "sflag \<or> ch = CHR ''s''" "if ch = CHR ''t'' then Some a else type" s1]
    have "\<exists>s'. parseArgs_getopt pf ((ch, a) # opts) sflag type s =
            Exit (if help_first pf opts then EXIT_SUCCESS else EXIT_FAILURE) s'"
      unfolding s1 .
    moreover from False have "\<not> ends_options pf (ch, a)"
      by (simp add: ends_options_def)
    then have "help_first pf ((ch, a) # opts) = help_first pf opts"
      by (simp add: help_first_def)
    ultimately show ?thesis
      unfolding o by simp
  qed
qed

lemma parseArgs_exit_status:
  assumes e: "parseArgs pf opts args (init_state k) = Exit st s'"
  shows "st = (if help_first pf opts then EXIT_SUCCESS else EXIT_FAILURE)"
proof (cases "list_ex (ends_options pf) opts")
  case True
  from getopt_exit_status [OF True, of False None "init_state k"] e show ?thesis
    by (auto simp: parseArgs_def)
next
  case False
  then have dw: "dropWhile (\<lambda>opt. \<not> ends_options pf opt) opts = []"
    by (simp add: list_ex_iff)
  have nf: "\<not> help_first pf opts"
    unfolding help_first_def dw by simp
  from False have "CHR ''h'' \<notin> fst ` set opts"
    by (auto simp: list_ex_iff ends_options_def)
  with parseArgs_no_call [of "init_state k" opts pf args, unfolded e] nf show ?thesis
    by (simp add: parsed_without_call_def)
qed

lemmas configuration_error_eval = configuration_error_def rejected_option_def converted_def strtol_value_def
  option_given_def last_arg_def chosen_variant_def chosen_socktype_def socktype_name_def
  strncmp_eq_def strcasecmp_eq_def tolower_def linux_pf_def wrap32_def digits.simps
  digit_val_def isspace_def

text \<open>
  Claim C9, as the code has it, for a run of \<open>parseArgs\<close> from the initial values of the
  global variables.
  \<^item> Every exit of \<open>parseArgs\<close> happens before any call to the operating system (so
    before any pipe, fifo, socket or path exists), it is the exit of the whole program,
    and its status is \<open>EXIT_FAILURE\<close>; the one exception is the option \<open>-h\<close>, which
    prints the usage and exits with \<open>EXIT_SUCCESS\<close>.
  \<^item> A numeric argument is refused by its value: \<open>strtol\<close> converts it (leading white
    space, a sign, then the leading digits; the rest of the string is not looked at),
    the \<open>long\<close> is cut to an \<open>int\<close>, and a value below the threshold ends the program.
  \<^item> \<open>parseArgs\<close> exits exactly when the help option is given or the command line has
    one of the configuration errors of \<open>configuration_error\<close>.
  \<^item> So every such configuration error, on a command line without \<open>-h\<close>, ends the
    program with \<open>EXIT_FAILURE\<close> before any call to the operating system.
  \<^item> The status of an exit of \<open>parseArgs\<close> is \<open>EXIT_SUCCESS\<close> when the first option that
    ends the loop over the options is \<open>-h\<close>, and \<open>EXIT_FAILURE\<close> in every other case.
\<close>

theorem configuration_errors_before_resources:
  "(parseArgs pf opts args s = Exit st s' \<longrightarrow>
      no_call s s' \<and> main pf os opts args s = Some (st, s')
      \<and> (st = EXIT_FAILURE \<or> (st = EXIT_SUCCESS \<and> CHR ''h'' \<in> fst ` set opts)))
   \<and> (wrap32 (fst (strtol pf inp s)) < threshold \<longrightarrow>
        (\<exists>s'. inputNumber pf inp threshold s = Exit EXIT_FAILURE s' \<and> no_call s s'))
   \<and> ((\<exists>st s'. parseArgs pf opts args (init_state k) = Exit st s')
        \<longleftrightarrow> (CHR ''h'' \<in> fst ` set opts \<or> configuration_error pf opts args))
   \<and> (configuration_error pf opts args \<and> CHR ''h'' \<notin> fst ` set opts \<longrightarrow>
        (\<exists>s'. parseArgs pf opts args (init_state k) = Exit EXIT_FAILURE s'
              \<and> no_call (init_state k) s'
              \<and> main pf os opts args (init_state k) = Some (EXIT_FAILURE, s')))
   \<and> (parseArgs pf opts args (init_state k) = Exit x t \<longrightarrow>
        (x = EXIT_SUCCESS \<longleftrightarrow> help_first pf opts)
        \<and> (x = EXIT_FAILURE \<longleftrightarrow> \<not> help_first pf opts))"
proof -
  have a: "no_call t t' \<and> main pf os opts args t = Some (x, t')
      \<and> (x = EXIT_FAILURE \<or> (x = EXIT_SUCCESS \<and> CHR ''h'' \<in> fst ` set opts))"
    if e: "parseArgs pf opts args t = Exit x t'" for t t' x
    using parseArgs_no_call [of t opts pf args, unfolded e] e
    by (simp add: parsed_without_call_def main_def)
  have b: "wrap32 (fst (strtol pf inp s)) < threshold \<longrightarrow>
        (\<exists>s'. inputNumber pf inp threshold s = Exit EXIT_FAILURE s' \<and> no_call s s')"
    by (cases "strtol pf inp s")
       (auto simp: inputNumber_def strtol_def Let_def no_call_def eprint_def split: if_splits)
  note c = parseArgs_exits_iff [of pf opts args k]
  have d: "\<exists>s'. parseArgs pf opts args (init_state k) = Exit EXIT_FAILURE s'
              \<and> no_call (init_state k) s'
              \<and> main pf os opts args (init_state k) = Some (EXIT_FAILURE, s')"
    if "configuration_error pf opts args \<and> CHR ''h'' \<notin> fst ` set opts"
  proof -
    from that c obtain x t' where e: "parseArgs pf opts args (init_state k) = Exit x t'"
      by blast
    from a [OF e] that have "x = EXIT_FAILURE"
      by blast
    with a [OF e] e show ?thesis
      by (intro exI [of _ t']) simp
  qed
  have f: "(x = EXIT_SUCCESS \<longleftrightarrow> help_first pf opts)
        \<and> (x = EXIT_FAILURE \<longleftrightarrow> \<not> help_first pf opts)"
    if "parseArgs pf opts args (init_state k) = Exit x t"
    using parseArgs_exit_status [OF that]
    by (simp add: EXIT_SUCCESS_def EXIT_FAILURE_def)
  from a [of s st s'] b c d f show ?thesis
    by blast
qed

text \<open>
  A pipe size with the variant fifo, the socket type \<open>bogus\<close>, and three positional
  arguments are configuration errors and end the program; \<open>-t socket -s inet-stream 1 2\<close>
  has no configuration error, and \<open>parseArgs\<close> returns.
\<close>

theorem configuration_errors_before_resources_witness:
  "parseArgs linux_pf [(CHR ''t'', ''fifo''), (CHR ''P'', ''5'')] [] (init_state (0::int))
     = Exit EXIT_FAILURE
         (eprint Only_with_pipe ((init_state 0)\<lparr>IPC_TYPE := IPC_FIFO, SET_PIPEBUF := 5\<rparr>))
   \<and> no_call (init_state (0::int))
         (eprint Only_with_pipe ((init_state 0)\<lparr>IPC_TYPE := IPC_FIFO, SET_PIPEBUF := 5\<rparr>))
   \<and> main linux_pf (pipe_os 65536) [(CHR ''t'', ''fifo''), (CHR ''P'', ''5'')] [] (init_state 0)
     = Some (EXIT_FAILURE,
         eprint Only_with_pipe ((init_state 0)\<lparr>IPC_TYPE := IPC_FIFO, SET_PIPEBUF := 5\<rparr>))
   \<and> wrap32 (fst (strtol linux_pf ''abc'' (init_state (0::int)))) < 1
   \<and> (\<exists>s'. inputNumber linux_pf ''abc'' 1 (init_state (0::int)) = Exit EXIT_FAILURE s'
            \<and> no_call (init_state 0) s')
   \<and> configuration_error linux_pf [(CHR ''t'', ''fifo''), (CHR ''P'', ''5'')] []
   \<and> CHR ''h'' \<notin> fst ` set [(CHR ''t'', ''fifo''), (CHR ''P'', ''5'')]
   \<and> configuration_error linux_pf [(CHR ''t'', ''socket''), (CHR ''s'', ''bogus'')] []
   \<and> CHR ''h'' \<notin> fst ` set [(CHR ''t'', ''socket''), (CHR ''s'', ''bogus'')]
   \<and> (\<exists>s'. parseArgs linux_pf [(CHR ''t'', ''socket''), (CHR ''s'', ''bogus'')] []
               (init_state (0::int)) = Exit EXIT_FAILURE s'
            \<and> no_call (init_state 0) s'
            \<and> main linux_pf (pipe_os 65536) [(CHR ''t'', ''socket''), (CHR ''s'', ''bogus'')] []
                 (init_state 0) = Some (EXIT_FAILURE, s'))
   \<and> configuration_error linux_pf [] [''1'', ''2'', ''3'']
   \<and> (\<exists>s'. parseArgs linux_pf [] [''1'', ''2'', ''3''] (init_state (0::int))
               = Exit EXIT_FAILURE s'
            \<and> no_call (init_state 0) s'
            \<and> main linux_pf (pipe_os 65536) [] [''1'', ''2'', ''3''] (init_state 0)
                 = Some (EXIT_FAILURE, s'))
   \<and> \<not> configuration_error linux_pf [(CHR ''t'', ''socket''), (CHR ''s'', ''inet-stream'')]
          [''1'', ''2'']
   \<and> (\<nexists>st s'. parseArgs linux_pf [(CHR ''t'', ''socket''), (CHR ''s'', ''inet-stream'')]
          [''1'', ''2''] (init_state (0::int)) = Exit st s')
   \<and> \<not> help_first linux_pf [(CHR ''t'', ''fifo''), (CHR ''P'', ''5'')]
   \<and> parseArgs linux_pf [(CHR ''q'', []), (CHR ''h'', []), (CHR ''P'', ''0'')] []
         (init_state (0::int))
       = Exit EXIT_SUCCESS (print Usage_text ((init_state 0)\<lparr>QUIET := True\<rparr>))
   \<and> help_first linux_pf [(CHR ''q'', []), (CHR ''h'', []), (CHR ''P'', ''0'')]"
proof -
  have run: "parseArgs linux_pf [(CHR ''t'', ''fifo''), (CHR ''P'', ''5'')] [] (init_state (0::int))
     = Exit EXIT_FAILURE
         (eprint Only_with_pipe ((init_state 0)\<lparr>IPC_TYPE := IPC_FIFO, SET_PIPEBUF := 5\<rparr>))"
    by (simp add: parseArgs_def parseArgs_type_def inputNumber_def strtol_def strtol_value_def
          digits.simps digit_val_def isspace_def wrap32_def linux_pf_def init_state_def
          strcasecmp_eq_def strncmp_eq_def tolower_def eprint_def print_def EXIT_FAILURE_def
          Let_def)
  have low: "wrap32 (fst (strtol linux_pf ''abc'' (init_state (0::int)))) < 1"
    by (simp add: strtol_def strtol_value_def digits.simps digit_val_def isspace_def wrap32_def
          linux_pf_def Let_def)
  have e1: "configuration_error linux_pf [(CHR ''t'', ''fifo''), (CHR ''P'', ''5'')] []"
    by (simp add: configuration_error_eval)
  have n1: "CHR ''h'' \<notin> fst ` set [(CHR ''t'', ''fifo''), (CHR ''P'', ''5'')]"
    by simp
  have e2: "configuration_error linux_pf [(CHR ''t'', ''socket''), (CHR ''s'', ''bogus'')] []"
    by (simp add: configuration_error_eval)
  have n2: "CHR ''h'' \<notin> fst ` set [(CHR ''t'', ''socket''), (CHR ''s'', ''bogus'')]"
    by simp
  have e3: "configuration_error linux_pf [] [''1'', ''2'', ''3'']"
    by (simp add: configuration_error_eval)
  have n3: "CHR ''h'' \<notin> fst ` set ([] :: (char \<times> string) list)"
    by simp
  have e4: "\<not> configuration_error linux_pf [(CHR ''t'', ''socket''), (CHR ''s'', ''inet-stream'')]
          [''1'', ''2'']"
    by (simp add: configuration_error_eval)
  have n4: "CHR ''h'' \<notin> fst ` set [(CHR ''t'', ''socket''), (CHR ''s'', ''inet-stream'')]"
    by simp
  note t = configuration_errors_before_resources
             [of linux_pf "[(CHR ''t'', ''fifo''), (CHR ''P'', ''5'')]" "[]" "init_state (0::int)"
                 EXIT_FAILURE
                 "eprint Only_with_pipe ((init_state 0)\<lparr>IPC_TYPE := IPC_FIFO, SET_PIPEBUF := 5\<rparr>)"
                 "pipe_os 65536" "''abc''" 1]
  note t1 = t [THEN conjunct1, rule_format, OF run]
  note t2 = t [THEN conjunct2, THEN conjunct1, rule_format, OF low]
  note u2 = configuration_errors_before_resources [of linux_pf "[(CHR ''t'', ''socket''), (CHR ''s'', ''bogus'')]" "[]" _ _ _
                 "pipe_os 65536" _ _ "0::int",
                 THEN conjunct2, THEN conjunct2, THEN conjunct2, THEN conjunct1, rule_format,
                 OF conjI [OF e2 n2]]
  note u3 = configuration_errors_before_resources [of linux_pf "[]" "[''1'', ''2'', ''3'']" _ _ _
                 "pipe_os 65536" _ _ "0::int",
                 THEN conjunct2, THEN conjunct2, THEN conjunct2, THEN conjunct1, rule_format,
                 OF conjI [OF e3 n3]]
  note u4 = configuration_errors_before_resources [of linux_pf "[(CHR ''t'', ''socket''), (CHR ''s'', ''inet-stream'')]"
                 "[''1'', ''2'']" _ _ _ _ _ _ "0::int",
                 THEN conjunct2, THEN conjunct2, THEN conjunct1]
  from u4 e4 n4
  have u4': "\<nexists>st s'. parseArgs linux_pf [(CHR ''t'', ''socket''), (CHR ''s'', ''inet-stream'')]
          [''1'', ''2''] (init_state (0::int)) = Exit st s'"
    by blast
  from t [THEN conjunct2, THEN conjunct2, THEN conjunct2, THEN conjunct2, rule_format, OF run]
  have v1: "\<not> help_first linux_pf [(CHR ''t'', ''fifo''), (CHR ''P'', ''5'')]"
    by simp
  have hrun: "parseArgs linux_pf [(CHR ''q'', []), (CHR ''h'', []), (CHR ''P'', ''0'')] []
         (init_state (0::int))
       = Exit EXIT_SUCCESS (print Usage_text ((init_state 0)\<lparr>QUIET := True\<rparr>))"
    by (simp add: parseArgs_def init_state_def print_def)
  from configuration_errors_before_resources
         [THEN conjunct2, THEN conjunct2, THEN conjunct2, THEN conjunct2, rule_format, OF hrun]
  have v2: "help_first linux_pf [(CHR ''q'', []), (CHR ''h'', []), (CHR ''P'', ''0'')]"
    by simp
  from run t1 low t2 e1 n1 e2 n2 u2 e3 u3 e4 u4' v1 hrun v2
  show ?thesis
    by (intro conjI) simp_all
qed

text \<open>
  What the parser does not detect. The chunk size \<open>abc\<close> is converted to 0 and
  accepted (the threshold of the sizes and of \<open>-n\<close> is 0); \<open>4294967297\<close> does not fit an
  \<open>int\<close> and is accepted as 1; an unknown name after \<open>-t\<close> leaves the default
  \<open>pipe\<close>, and \<open>-R\<close> is accepted with a pipe. With \<open>-c abc\<close> the program goes on,
  creates the pipe and exits with status 0.
\<close>

theorem configuration_errors_before_resources_counterexample:
  "parseArgs linux_pf [(CHR ''c'', [])] [''abc''] (init_state (0::int))
     = Return () ((init_state 0)\<lparr>MODE := CHUNK, CHUNK1 := 0\<rparr>)
   \<and> parseArgs linux_pf [] [''4294967297''] (init_state (0::int))
     = Return () ((init_state 0)\<lparr>CHUNK1 := 1\<rparr>)
   \<and> parseArgs linux_pf [(CHR ''t'', ''bogus''), (CHR ''R'', ''4096'')] [] (init_state (0::int))
     = Return () ((init_state 0)\<lparr>SET_RCVBUF := 4096\<rparr>)
   \<and> (case main linux_pf (pipe_os 65536) [(CHR ''c'', [])] [''abc''] (init_state 0) of
         None \<Rightarrow> False
       | Some (st, s') \<Rightarrow> st = EXIT_SUCCESS \<and> (Pipe, Ok2 3 4) \<in> set (trace s'))"
proof (intro conjI)
  show a: "parseArgs linux_pf [(CHR ''c'', [])] [''abc''] (init_state (0::int))
     = Return () ((init_state 0)\<lparr>MODE := CHUNK, CHUNK1 := 0\<rparr>)"
    by (simp add: parseArgs_def parseArgs_type_def parseArgs_chunks_def inputNumber_def strtol_def
          strtol_value_def digits.simps digit_val_def isspace_def wrap32_def linux_pf_def
          init_state_def strcasecmp_eq_def strncmp_eq_def tolower_def Let_def)
  show "parseArgs linux_pf [] [''4294967297''] (init_state (0::int))
     = Return () ((init_state 0)\<lparr>CHUNK1 := 1\<rparr>)"
    by (simp add: parseArgs_def parseArgs_type_def parseArgs_chunks_def inputNumber_def strtol_def
          strtol_value_def digits.simps digit_val_def isspace_def wrap32_def linux_pf_def
          init_state_def strcasecmp_eq_def strncmp_eq_def tolower_def Let_def)
  show "parseArgs linux_pf [(CHR ''t'', ''bogus''), (CHR ''R'', ''4096'')] [] (init_state (0::int))
     = Return () ((init_state 0)\<lparr>SET_RCVBUF := 4096\<rparr>)"
    by (simp add: parseArgs_def parseArgs_type_def parseArgs_chunks_def inputNumber_def strtol_def
          strtol_value_def digits.simps digit_val_def isspace_def wrap32_def linux_pf_def
          init_state_def strcasecmp_eq_def strncmp_eq_def tolower_def Let_def)
  show "case main linux_pf (pipe_os 65536) [(CHR ''c'', [])] [''abc''] (init_state 0) of
         None \<Rightarrow> False
       | Some (st, s') \<Rightarrow> st = EXIT_SUCCESS \<and> (Pipe, Ok2 3 4) \<in> set (trace s')"
    unfolding main_def a
    by (simp add: doPipe_def sysc_def checked_def and_then_def and_then_opt_def init_state_def
          linux_pf_def writeData_def writeData_chunk_def writeData_for.simps writeChunk_def
          writeChunk_again.simps writeData_report_def readData_def readData_while.simps
          printFdQueueSize_def reportTest_def print_unless_quiet_def
          setPipeSize_def cleanup_def print_def eprint_def err_def wrap32_def Let_def
          EXIT_SUCCESS_def EXIT_FAILURE_def)
qed

section \<open>The Drain Engine (C6)\<close>

text \<open>
  A run of \<open>readData\<close> that ends. Its calls are \<open>malloc\<close> of the buffer, the
  \<open>fcntl\<close> that sets the descriptor nonblocking, and then queries of the queue and
  reads; every read is on \<open>fd\<close> into the whole buffer, whose size is the larger of
  \<open>BUFSIZ\<close> and the \<open>LARGEST_CHUNK\<close> of the process that drains; no read comes
  before a successful \<open>fcntl\<close>; the number printed is the sum of what the reads
  returned. One turn of the loop: it ends without a read when the queue depth is 0, it
  ends after a read that would block or that returns 0, it exits with \<open>EXIT_FAILURE\<close>
  after any other failure, and it goes on with the sum otherwise.
\<close>

lemma bytes_read_simps:
  "bytes_read [] = 0"
  "bytes_read (tr @ tr') = bytes_read tr + bytes_read tr'"
  "bytes_read [(Ioctl fd req, r)] = 0"
  "bytes_read [(Malloc c, r)] = 0"
  "bytes_read [(Fcntl_SETFL_NONBLOCK fd, r)] = 0"
  "bytes_read [(Read fd c, r)] = (if 0 \<le> wrap32 (rv r) then wrap32 (rv r) else 0)"
  by (simp_all add: bytes_read_def read_count_def)

lemma printFdQueueSize_trace:
  "\<exists>tr. trace (final (printFdQueueSize pf os fd w s)) = trace s @ tr
        \<and> list_all (reads_into fd' c) tr \<and> bytes_read tr = 0
        \<and> QUIET (final (printFdQueueSize pf os fd w s)) = QUIET s"
proof (cases "\<exists>req. select_req pf w = Some req
    \<and> \<not> ((def_FreeBSD pf \<or> def_linux pf)
           \<and> \<not> (IPC_TYPE s = IPC_SOCKET \<or> IPC_TYPE s = IPC_SOCKETPAIR))")
  case False
  then have "final (printFdQueueSize pf os fd w s) = s"
    by (auto simp: printFdQueueSize_def split: option.splits)
  then show ?thesis
    by (simp add: bytes_read_simps)
next
  case True
  then obtain req where req: "select_req pf w = Some req"
      "\<not> ((def_FreeBSD pf \<or> def_linux pf)
           \<and> \<not> (IPC_TYPE s = IPC_SOCKET \<or> IPC_TYPE s = IPC_SOCKETPAIR))"
    by (elim exE conjE)
  obtain r s1 where c: "sysc os (Ioctl fd req) s = (r, s1)"
    by (cases "sysc os (Ioctl fd req) s")
  note f = sysc_result [OF c]
  from req c f have "trace (final (printFdQueueSize pf os fd w s)) = trace s @ [(Ioctl fd req, r)]
      \<and> QUIET (final (printFdQueueSize pf os fd w s)) = QUIET s"
    by (cases r) (simp_all add: printFdQueueSize_def err_def eprint_def print_def)
  then show ?thesis
    by (intro exI [of _ "[(Ioctl fd req, r)]"]) (simp add: bytes_read_simps reads_into_def)
qed

lemma readData_while_run:
  assumes run: "readData_while pf os fd bufsiz tot s = Some res"
  shows "\<exists>tr. trace (final res) = trace s @ tr
           \<and> list_all (reads_into fd bufsiz) tr
           \<and> QUIET (final res) = QUIET s
           \<and> (\<forall>t s'. int32 tot \<longrightarrow> res = Return t s' \<longrightarrow> t = wrap32 (tot + bytes_read tr))"
proof (rule readData_while.raw_induct
    [where P = "\<lambda>pf os fd bufsiz tot s res.
       \<exists>tr. trace (final res) = trace s @ tr
           \<and> list_all (reads_into fd bufsiz) tr
           \<and> QUIET (final res) = QUIET s
           \<and> (\<forall>t s'. int32 tot \<longrightarrow> res = Return t s' \<longrightarrow> t = wrap32 (tot + bytes_read tr))",
     OF _ run], goal_cases)
  case (1 loop pf os fd bufsiz tot s res)
  note IH = "1"(1) and body = "1"(2)
  from printFdQueueSize_trace [of pf os fd ReadQ s fd bufsiz]
  obtain tr0 where q: "trace (final (printFdQueueSize pf os fd ReadQ s)) = trace s @ tr0"
      "list_all (reads_into fd bufsiz) tr0" "bytes_read tr0 = 0"
      "QUIET (final (printFdQueueSize pf os fd ReadQ s)) = QUIET s"
    by (elim exE conjE)
  have idt: "int32 tot \<Longrightarrow> wrap32 tot = tot"
    by (simp add: int32_def wrap32_id)
  show ?case
  proof (cases "printFdQueueSize pf os fd ReadQ s")
    case (Exit st s1)
    with body q show ?thesis
      by (intro exI [of _ tr0]) auto
  next
    case (Return left s1)
    show ?thesis
    proof (cases "left = 0")
      case True
      with Return body q idt show ?thesis
        by (intro exI [of _ tr0]) auto
    next
      case False
      obtain r s2 where c: "sysc os (Read fd bufsiz) s1 = (r, s2)"
        by (cases "sysc os (Read fd bufsiz) s1")
      note f = sysc_result [OF c]
      from f q Return have t2: "trace s2 = trace s @ tr0 @ [(Read fd bufsiz, r)]"
        and q2: "QUIET s2 = QUIET s"
        by simp_all
      have l2: "list_all (reads_into fd bufsiz) (tr0 @ [(Read fd bufsiz, r)])"
        using q(2) by (simp add: reads_into_def)
      define nr where "nr = wrap32 (rv r)"
      have b2: "bytes_read (tr0 @ [(Read fd bufsiz, r)]) = (if 0 \<le> nr then nr else 0)"
        using q(3) by (simp add: bytes_read_simps nr_def)
      consider (neg) "nr < 0" | (zero) "nr = 0" | (pos) "0 < nr"
        by linarith
      then show ?thesis
      proof cases
        case neg
        with Return False c body
        have "res = Return tot s2 \<or> res = err ''read'' s2"
          by (auto simp: nr_def Let_def split: if_splits)
        with t2 q2 l2 b2 neg idt show ?thesis
          by (intro exI [of _ "tr0 @ [(Read fd bufsiz, r)]"]) (auto simp: err_def eprint_def)
      next
        case zero
        with Return False c body
        have "res = Return (wrap32 (tot + 0)) s2"
          by (auto simp: nr_def Let_def split: if_splits)
        with t2 q2 l2 b2 zero idt show ?thesis
          by (intro exI [of _ "tr0 @ [(Read fd bufsiz, r)]"]) auto
      next
        case pos
        with Return False c body
        have "loop pf os fd bufsiz (wrap32 (tot + nr)) s2 = Some res"
          by (auto simp: nr_def Let_def split: if_splits)
        from IH [OF this] obtain tr' where
          r: "trace (final res) = trace s2 @ tr'" "list_all (reads_into fd bufsiz) tr'"
             "QUIET (final res) = QUIET s2"
             "\<forall>t s'. int32 (wrap32 (tot + nr)) \<longrightarrow> res = Return t s' \<longrightarrow>
                 t = wrap32 (wrap32 (tot + nr) + bytes_read tr')"
          by (elim exE conjE)
        have i: "int32 (wrap32 (tot + nr))"
          using wrap32_range [of "tot + nr"] by (simp add: int32_def)
        have "bytes_read (tr0 @ [(Read fd bufsiz, r)] @ tr')
              = bytes_read (tr0 @ [(Read fd bufsiz, r)]) + bytes_read tr'"
          by (simp add: bytes_read_def)
        also have "\<dots> = nr + bytes_read tr'"
          using pos by (simp only: b2) simp
        finally have b: "bytes_read (tr0 @ (Read fd bufsiz, r) # tr') = nr + bytes_read tr'"
          by simp
        have "\<forall>t s'. res = Return t s' \<longrightarrow>
                 t = wrap32 (tot + bytes_read (tr0 @ [(Read fd bufsiz, r)] @ tr'))"
          using r(4) i by (simp add: b wrap32_add_left add.assoc)
        with r(1,2,3) t2 q2 l2 show ?thesis
          by (intro exI [of _ "tr0 @ [(Read fd bufsiz, r)] @ tr'"]) simp
      qed
    qed
  qed
qed


lemma readData_run:
  assumes run: "readData pf os fd s = Some res"
  shows "\<exists>tr. trace (final res) = trace s @ tr
           \<and> list_all (reads_into fd (max (BUFSIZ pf) (LARGEST_CHUNK s))) tr
           \<and> (\<forall>u s'. res = Return u s' \<longrightarrow> \<not> QUIET s \<longrightarrow>
                 last (printed s') = (Stdout, Labelled ''Read'' (wrap32 (bytes_read tr))))
           \<and> (list_all (\<lambda>e. \<not> is_read e) tr
                \<or> (\<exists>m r tr'. tr = (Malloc (max (BUFSIZ pf) (LARGEST_CHUNK s)), m)
                                    # (Fcntl_SETFL_NONBLOCK fd, r) # tr' \<and> 0 \<le> rv r))"
proof -
  define s1 where "s1 = (if \<not> QUIET s then print Draining s else s)"
  define bufsiz where "bufsiz = max (BUFSIZ pf) (LARGEST_CHUNK s)"
  have s1: "trace s1 = trace s" "QUIET s1 = QUIET s" "LARGEST_CHUNK s1 = LARGEST_CHUNK s"
    by (simp_all add: s1_def print_def)
  have bs: "(if LARGEST_CHUNK s1 > BUFSIZ pf then LARGEST_CHUNK s1 else BUFSIZ pf) = bufsiz"
    by (simp add: bufsiz_def s1 max_def)
  obtain m s2 where c2: "sysc os (Malloc bufsiz) s1 = (m, s2)"
    by (cases "sysc os (Malloc bufsiz) s1")
  note f2 = sysc_result [OF c2]
  obtain r s3 where c3: "sysc os (Fcntl_SETFL_NONBLOCK fd) s2 = (r, s3)"
    by (cases "sysc os (Fcntl_SETFL_NONBLOCK fd) s2")
  note f3 = sysc_result [OF c3]
  have unfold: "readData pf os fd s =
     (case m of
        Fail e \<Rightarrow> Some (err ''malloc'' s2)
      | _ \<Rightarrow>
          if rv r < 0 then Some (err ''fcntl set flags'' s3)
          else
            case readData_while pf os fd bufsiz 0 s3 of
              None \<Rightarrow> None
            | Some (Exit st s4) \<Rightarrow> Some (Exit st s4)
            | Some (Return tot s4) \<Rightarrow>
                Some (Return () (if \<not> QUIET s4 then print (Labelled ''Read'' tot) s4 else s4)))"
    unfolding readData_def s1_def [symmetric] Let_def bs
    by (simp add: c2 c3 split: sysret.splits)
  show ?thesis
  proof (cases "\<exists>e. m = Fail e")
    case True
    with run unfold have "res = err ''malloc'' s2"
      by auto
    with f2 s1 show ?thesis
      by (intro exI [of _ "[(Malloc bufsiz, m)]"])
         (simp add: err_def eprint_def reads_into_def bufsiz_def is_read_def)
  next
    case False
    then have u2: "readData pf os fd s =
          (if rv r < 0 then Some (err ''fcntl set flags'' s3)
          else
            case readData_while pf os fd bufsiz 0 s3 of
              None \<Rightarrow> None
            | Some (Exit st s4) \<Rightarrow> Some (Exit st s4)
            | Some (Return tot s4) \<Rightarrow>
                Some (Return () (if \<not> QUIET s4 then print (Labelled ''Read'' tot) s4 else s4)))"
      unfolding unfold by (cases m) simp_all
    have t3: "trace s3 = trace s @ [(Malloc bufsiz, m), (Fcntl_SETFL_NONBLOCK fd, r)]"
      and q3: "QUIET s3 = QUIET s"
      using f2 f3 s1 by simp_all
    show ?thesis
    proof (cases "rv r < 0")
      case True
      with run u2 have "res = err ''fcntl set flags'' s3"
        by simp
      with t3 show ?thesis
        by (intro exI [of _ "[(Malloc bufsiz, m), (Fcntl_SETFL_NONBLOCK fd, r)]"])
           (simp add: err_def eprint_def reads_into_def bufsiz_def is_read_def)
    next
      case False
      with run u2 obtain x where x: "readData_while pf os fd bufsiz 0 s3 = Some x"
        by (cases "readData_while pf os fd bufsiz 0 s3") simp_all
      from readData_while_run [OF x] obtain tr' where
        w: "trace (final x) = trace s3 @ tr'" "list_all (reads_into fd bufsiz) tr'"
           "QUIET (final x) = QUIET s3"
           "\<forall>t s'. int32 0 \<longrightarrow> x = Return t s' \<longrightarrow> t = wrap32 (0 + bytes_read tr')"
        by (elim exE conjE)
      have b: "bytes_read ([(Malloc bufsiz, m), (Fcntl_SETFL_NONBLOCK fd, r)] @ tr') = bytes_read tr'"
        by (simp add: bytes_read_def read_count_def)
      have l: "list_all (reads_into fd bufsiz) ([(Malloc bufsiz, m), (Fcntl_SETFL_NONBLOCK fd, r)] @ tr')"
        using w(2) by (simp add: reads_into_def)
      show ?thesis
      proof (cases x)
        case (Exit st s4)
        with run u2 False x have "res = Exit st s4"
          by simp
        with Exit w(1) t3 l False show ?thesis
          unfolding bufsiz_def
          by (intro exI [of _ "[(Malloc (max (BUFSIZ pf) (LARGEST_CHUNK s)), m), (Fcntl_SETFL_NONBLOCK fd, r)] @ tr'"])
             simp
      next
        case (Return tot s4)
        with run u2 False x
        have res: "res = Return () (if \<not> QUIET s4 then print (Labelled ''Read'' tot) s4 else s4)"
          by simp
        from w(4) Return have tot: "tot = wrap32 (bytes_read tr')"
          by (simp add: int32_def)
        from w(3) Return q3 have q4: "QUIET s4 = QUIET s"
          by simp
        from res Return w(1) t3 l tot q4 b False show ?thesis
          unfolding bufsiz_def
          by (intro exI [of _ "[(Malloc (max (BUFSIZ pf) (LARGEST_CHUNK s)), m), (Fcntl_SETFL_NONBLOCK fd, r)] @ tr'"])
             (simp add: print_def)
      qed
    qed
  qed
qed

lemma readData_while_step:
  assumes q: "printFdQueueSize pf os fd ReadQ s = Return left s1"
  shows "(left = 0 \<longrightarrow> readData_while pf os fd bufsiz tot s = Some (Return tot s1))
     \<and> (left \<noteq> 0 \<longrightarrow>
          (case sysc os (Read fd bufsiz) s1 of
             (Fail e, s2) \<Rightarrow>
               readData_while pf os fd bufsiz tot s =
                 (if e = EAGAIN then Some (Return tot s2)
                  else Some (Exit EXIT_FAILURE (eprint (Err_line ''read'' e) s2)))
           | (Ok n, s2) \<Rightarrow>
               int32 n \<longrightarrow> int32 tot \<longrightarrow>
                 (n < 0 \<longrightarrow> readData_while pf os fd bufsiz tot s =
                    (if errno s2 = EAGAIN then Some (Return tot s2) else Some (err ''read'' s2)))
               \<and> (n = 0 \<longrightarrow> readData_while pf os fd bufsiz tot s = Some (Return tot s2))
               \<and> (0 < n \<longrightarrow> readData_while pf os fd bufsiz tot s =
                    readData_while pf os fd bufsiz (wrap32 (tot + n)) s2)
           | (Ok2 a b, s2) \<Rightarrow>
               int32 tot \<longrightarrow> readData_while pf os fd bufsiz tot s = Some (Return tot s2)))"
proof (cases "sysc os (Read fd bufsiz) s1")
  case (Pair r s2)
  note f = sysc_result [OF Pair]
  have w1: "wrap32 (- 1) = - 1"
    by (simp add: wrap32_def)
  show ?thesis
  proof (cases r)
    case (Fail e)
    with f have "errno s2 = e" by simp
    with q Pair Fail w1 show ?thesis
      by (subst readData_while.simps, subst readData_while.simps) (simp add: err_def)
  next
    case (Ok n)
    with q Pair show ?thesis
      by (subst readData_while.simps, subst readData_while.simps, subst readData_while.simps,
          subst readData_while.simps) (simp add: int32_def wrap32_id)
  next
    case (Ok2 a b)
    with q Pair show ?thesis
      by (subst readData_while.simps, subst readData_while.simps) (simp add: int32_def wrap32_id)
  qed
qed

text \<open>
  Claim C6 on the run \<open>ipcbuf -t socket -s stream 10000\<close> (Linux, \<open>BUFSIZ\<close> 8192). The
  writer is the process in which \<open>fork\<close> returned 0: its write of 10000 bytes is
  accepted, and its \<open>LARGEST_CHUNK\<close> is 10000 at the end. \<open>readData\<close> runs in the other
  process, after \<open>accept\<close> and \<open>waitpid\<close>: there \<open>LARGEST_CHUNK\<close> is still 0, the buffer
  is \<open>malloc(8192)\<close>, and each \<open>read\<close> asks for 8192 bytes, less than the chunk of 10000
  bytes that was written. In the other variants \<open>writeData\<close> and \<open>readData\<close> run in one
  process, and the buffer is at least the largest chunk.
\<close>

theorem stream_socket_drain_buffer:
  "(case main linux_pf script_os [(CHR ''t'', ''socket''), (CHR ''s'', ''stream'')] [''10000'']
           (init_state stream_writer) of
      None \<Rightarrow> False
    | Some (st, s') \<Rightarrow>
        st = 0 \<and> LARGEST_CHUNK s' = 10000
        \<and> trace s' =
            [(Atexit, Ok 0), (Socket PF_LOCAL SOCK_STREAM, Ok 3), (Bind 3 (Sun_path ''socket''), Ok 0),
             (Fflush, Ok 0), (Fork, Ok 0), (Usleep 500, Ok 0), (Socket PF_LOCAL SOCK_STREAM, Ok 4),
             (Connect 4 (Sun_path ''socket''), Ok 0), (Getsockopt 4 SO_SNDBUF, Ok 212992),
             (Getsockopt 3 SO_RCVBUF, Ok 212992), (Fcntl_SETFL_NONBLOCK 4, Ok 0),
             (Malloc 10000, Ok 1), (Write 4 10000, Ok 10000), (Malloc 20000, Ok 1),
             (Write 4 20000, Fail EAGAIN), (Ioctl 4 SIOCOUTQ, Ok 10000),
             (Unlink ''socket'', Ok 0), (Unlink ''fifo'', Ok 0)])
   \<and> (case main linux_pf script_os [(CHR ''t'', ''socket''), (CHR ''s'', ''stream'')] [''10000'']
           (init_state stream_reader) of
      None \<Rightarrow> False
    | Some (st, s') \<Rightarrow>
        st = 0 \<and> LARGEST_CHUNK s' = 0
        \<and> trace s' =
            [(Atexit, Ok 0), (Socket PF_LOCAL SOCK_STREAM, Ok 3), (Bind 3 (Sun_path ''socket''), Ok 0),
             (Fflush, Ok 0), (Fork, Ok 1234), (Listen 3 1, Ok 0), (Accept 3, Ok 4),
             (Waitpid 1234, Ok 1234), (Malloc 8192, Ok 1), (Fcntl_SETFL_NONBLOCK 4, Ok 0),
             (Ioctl 4 FIONREAD, Ok 10000), (Read 4 8192, Ok 8192), (Ioctl 4 FIONREAD, Ok 1808),
             (Read 4 8192, Ok 1808), (Ioctl 4 FIONREAD, Ok 0),
             (Unlink ''socket'', Ok 0), (Unlink ''fifo'', Ok 0)])"
  by (simp add: main_def parseArgs_def parseArgs_type_def parseArgs_chunks_def init_state_def
        strncmp_eq_def strcasecmp_eq_def tolower_def linux_pf_def inputNumber_def strtol_def
        strtol_value_def isspace_def digit_val_def wrap32_def sysc_def doSocket_def
        doSocket_address_def doSocket_connect_def reportSysctl_def setBufferSizes_def
        printSockOpt_def and_then_def and_then_opt_def reportTest_def print_def
        print_unless_quiet_def checked_def writeData_def printFdQueueSize_def writeLoop_def
        writeLoop_while.simps writeChunk_def writeChunk_again.simps eprint_def err_def
        grow_def writeData_report_def readData_def Let_def readData_while.simps cleanup_def
        EXIT_SUCCESS_def EXIT_FAILURE_def stream_writer_def stream_reader_def)

end
